theory Spec2Isabelle
  imports Main "HOL-Library.AList"
begin

section \<open>The kubernetes\_labels resource: data model\<close>

text \<open>
  The repository holds two versions of one Terraform resource,
  \<^verbatim>\<open>kubernetes_labels\<close>, which manages the labels of an object that already exists in a
  cluster. Variant A (the file with the \<^verbatim>\<open>force\<close> attribute) sends a server-side apply
  patch and filters what it reads by field-manager ownership; variant B
  (\<^verbatim>\<open>kubernetes/resource_kubernetes_labels.go\<close>) sends a JSON patch computed by
  \<^verbatim>\<open>diffStringMap\<close> and stores what it reads as it is. Both define the same four
  functions, so the embedding suffixes their names with \<open>_A\<close> and \<open>_B\<close>.

  A Go map is an association list: \<open>map_of\<close> is the lookup and the list order is one
  order in which \<^verbatim>\<open>range\<close> may visit the keys.
\<close>

type_synonym label_map = "(string \<times> string) list"

text \<open>A Go \<^verbatim>\<open>error\<close> value, identified by the message \<^verbatim>\<open>err.Error()\<close> gives.\<close>

datatype error = Err string

text \<open>
  \<^verbatim>\<open>diag.Diagnostics\<close> of the host framework; \<^verbatim>\<open>diag.FromErr(err)\<close> is the one-element list
  holding an error diagnostic whose summary is the error's own message.
\<close>

datatype Severity = Error | Warning

datatype Diagnostic = Diagnostic Severity string

fun FromErr :: "error \<Rightarrow> Diagnostic list" where
  "FromErr (Err msg) = [Diagnostic Error msg]"

text \<open>
  What a lifecycle function hands back to the framework: the diagnostics it returns
  (\<^verbatim>\<open>nil\<close> is the empty list), or a Go panic that unwinds it.
\<close>

datatype outcome = Diagnostics "Diagnostic list" | Panicked string

text \<open>
  A decoded JSON value, as \<^verbatim>\<open>encoding/json\<close> stores it in an \<^verbatim>\<open>interface{}\<close>; an object is
  the decoded \<^verbatim>\<open>map[string]interface{}\<close>. The number's payload is never inspected by
  the program.
\<close>

datatype json =
    JNull
  | JBool bool
  | JNumber int
  | JString string
  | JArray "json list"
  | JObject "(string \<times> json) list"

text \<open>
  \<^verbatim>\<open>v1.ManagedFieldsEntry\<close>: the manager's name and the pointer \<^verbatim>\<open>FieldsV1\<close>, whose
  \<^verbatim>\<open>Raw\<close> bytes are given by what decoding them yields: a syntax error, or the JSON
  value they denote.
\<close>

record ManagedFieldsEntry =
  Manager :: string
  FieldsV1 :: "(error + json) option"

text \<open>The object \<^verbatim>\<open>r.Get\<close> returns, reduced to the two accessors the program calls.\<close>

record Unstructured =
  GetLabels :: label_map
  GetManagedFields :: "ManagedFieldsEntry list"

datatype GroupVersion = GroupVersion (Group: string) (Version: string)

datatype GroupKind = GroupKind string string

datatype GroupVersionResource = GroupVersionResource string string string

datatype RESTScopeName = RESTScopeNameNamespace | RESTScopeNameRoot

datatype RESTMapping = RESTMapping (Resource: GroupVersionResource) (Scope: RESTScopeName)

text \<open>
  \<^verbatim>\<open>dynamic.ResourceInterface\<close>: \<^verbatim>\<open>conn.Resource(gvr)\<close> has no namespace,
  \<^verbatim>\<open>conn.Resource(gvr).Namespace(ns)\<close> has one.
\<close>

record ResourceInterface =
  ri_resource :: GroupVersionResource
  ri_namespace :: "string option"

datatype PatchType = JSONPatchType | MergePatchType | StrategicMergePatchType | ApplyPatchType

record PatchOptions =
  FieldManager :: string
  Force :: "bool option"

text \<open>A JSON-patch operation: its path and, for add and replace, its value.\<close>

datatype PatchOperation =
    AddOperation string json
  | RemoveOperation string
  | ReplaceOperation string json

record ObjectMeta =
  Name :: string
  Namespace :: string

text \<open>
  \<^verbatim>\<open>schema.ResourceData\<close>, the management record. \<open>metadata\<close> is what
  \<^verbatim>\<open>expandMetadata(d.Get("metadata"))\<close> yields. \<open>labels\<close> is what \<^verbatim>\<open>d.Get("labels")\<close> and the
  new side of \<^verbatim>\<open>d.GetChange("labels")\<close> read and what \<^verbatim>\<open>d.Set("labels", v)\<close> writes (in
  every call chain of the program the write is the last access); \<open>labels_old\<close> is the
  old side of \<^verbatim>\<open>d.GetChange("labels")\<close>, the label map of the prior state. \<open>force\<close> exists in
  variant A only.
\<close>

record ResourceData =
  Id_d :: string
  api_version :: string
  kind :: string
  metadata :: ObjectMeta
  labels_old :: label_map
  labels :: label_map
  force :: bool

text \<open>
  The provider's meta value \<^verbatim>\<open>m\<close> and the libraries behind it, as parameters. \<open>'w\<close> is the
  state of the remote API server, \<open>'g\<close> the discovery result, \<open>'b\<close> the marshalled patch.
  \<^item> \<open>DynamicClient\<close>, \<open>DiscoveryClient\<close>: the error of the constructor, if any;
  \<^item> \<open>GetAPIGroupResources\<close>: the two results of \<^verbatim>\<open>restmapper.GetAPIGroupResources(dc)\<close>;
  \<^item> \<open>RESTMapping_of agr gk version\<close>:
    \<^verbatim>\<open>restmapper.NewDiscoveryRESTMapper(agr).RESTMapping(gk, version)\<close>;
  \<^item> \<open>Get\<close> and \<open>Patch\<close>: the two calls on the dynamic client; a patch that succeeds yields
    the next server state, one that fails leaves the state;
  \<^item> \<open>Unstructured_MarshalJSON\<close>, \<open>PatchOperations_MarshalJSON\<close>: the two
    \<^verbatim>\<open>MarshalJSON\<close> methods;
  \<^item> \<open>defaultFieldManagerName\<close>, \<open>buildIdWithVersionKind\<close>: a constant and a helper of
    the package that are declared in other files.
\<close>

record ('w, 'g, 'b) KubeClientsets =
  DynamicClient :: "error option"
  DiscoveryClient :: "error option"
  GetAPIGroupResources :: "'w \<Rightarrow> 'g \<times> error option"
  ParseGroupVersion :: "string \<Rightarrow> error + GroupVersion"
  RESTMapping_of :: "'g \<Rightarrow> GroupKind \<Rightarrow> string \<Rightarrow> error + RESTMapping"
  Get :: "'w \<Rightarrow> ResourceInterface \<Rightarrow> string \<Rightarrow> error + Unstructured"
  Unstructured_MarshalJSON :: "json \<Rightarrow> error + 'b"
  PatchOperations_MarshalJSON :: "PatchOperation list \<Rightarrow> error + 'b"
  Patch :: "'w \<Rightarrow> ResourceInterface \<Rightarrow> string \<Rightarrow> PatchType \<Rightarrow> 'b \<Rightarrow> PatchOptions \<Rightarrow> error + 'w"
  defaultFieldManagerName :: string
  buildIdWithVersionKind :: "ObjectMeta \<Rightarrow> string \<Rightarrow> string \<Rightarrow> string"

section \<open>Resolving the resource client\<close>

text \<open>
  The first part of \<^verbatim>\<open>resourceKubernetesLabelsRead\<close> and
  \<^verbatim>\<open>resourceKubernetesLabelsUpdate\<close>, the same text in both functions of both variants
  (variant A lines 82--119 and 168--206, variant B lines 75--112 and 125--162): it
  yields the diagnostics of an early return, or the client \<^verbatim>\<open>r\<close>, the flag
  \<^verbatim>\<open>namespacedResource\<close> and the local variable \<^verbatim>\<open>namespace\<close>. The error of
  \<^verbatim>\<open>GetAPIGroupResources\<close> is assigned and overwritten by the next call without a test.
\<close>

definition resourceClient ::
  "('w, 'g, 'b) KubeClientsets \<Rightarrow> 'w \<Rightarrow> ResourceData
    \<Rightarrow> Diagnostic list + (ResourceInterface \<times> bool \<times> string)" where
  "resourceClient m w d =
    (case DynamicClient m of
       Some err \<Rightarrow> Inl (FromErr err)
     | None \<Rightarrow>
        (case DiscoveryClient m of
           Some err \<Rightarrow> Inl (FromErr err)
         | None \<Rightarrow>
            (let (agr, err) = GetAPIGroupResources m w in
             case ParseGroupVersion m (api_version d) of
               Inl err \<Rightarrow> Inl (FromErr err)
             | Inr gv \<Rightarrow>
                (case RESTMapping_of m agr (GroupKind (Group gv) (kind d)) (Version gv) of
                   Inl err \<Rightarrow> Inl (FromErr err)
                 | Inr mapping \<Rightarrow>
                    if Scope mapping = RESTScopeNameNamespace
                    then (let namespace = (if Namespace (metadata d) = '''' then ''default''
                                           else Namespace (metadata d))
                          in Inr (\<lparr>ri_resource = Resource mapping, ri_namespace = Some namespace\<rparr>,
                                  True, namespace))
                    else Inr (\<lparr>ri_resource = Resource mapping, ri_namespace = None\<rparr>,
                              False, Namespace (metadata d))))))"

section \<open>Variant A: server-side apply\<close>

text \<open>
  How \<^verbatim>\<open>getManagedLabels\<close> can end without a value: \<^verbatim>\<open>return nil, err\<close>, or a panic
  (a failed type assertion, a nil pointer).
\<close>

datatype abort = ReturnErr error | Panic string

text \<open>
  \<^verbatim>\<open>json.Unmarshal(m.FieldsV1.Raw, &mm)\<close> with \<^verbatim>\<open>mm\<close> a \<^verbatim>\<open>map[string]interface{}\<close>: bytes that
  do not parse and a value that is neither an object nor \<^verbatim>\<open>null\<close> are errors; \<^verbatim>\<open>null\<close>
  leaves \<^verbatim>\<open>mm\<close> nil, which reads as the empty map.
\<close>

fun Unmarshal_map :: "error + json \<Rightarrow> error + (string \<times> json) list" where
  "Unmarshal_map (Inl err) = Inl err"
| "Unmarshal_map (Inr (JObject mm)) = Inr mm"
| "Unmarshal_map (Inr JNull) = Inr []"
| "Unmarshal_map (Inr _) =
     Inl (Err ''json: cannot unmarshal into Go value of type map[string]interface {}'')"

text \<open>
  The loop of \<^verbatim>\<open>getManagedLabels\<close> (variant A lines 148--165), with the variable
  \<^verbatim>\<open>labels\<close> as the accumulator \<open>lbls\<close>; \<open>None\<close> is the nil map.
\<close>

fun getManagedLabels_loop ::
  "(string \<times> json) list option \<Rightarrow> ManagedFieldsEntry list \<Rightarrow> string
    \<Rightarrow> abort + (string \<times> json) list option" where
  "getManagedLabels_loop lbls [] manager = Inr lbls"
| "getManagedLabels_loop lbls (m # managedFields) manager =
     (if Manager m \<noteq> manager then getManagedLabels_loop lbls managedFields manager
      else case FieldsV1 m of
        None \<Rightarrow> Inl (Panic ''invalid memory address or nil pointer dereference'')
      | Some raw \<Rightarrow>
         (case Unmarshal_map raw of
            Inl err \<Rightarrow> Inl (ReturnErr err)
          | Inr mm \<Rightarrow>
             (case map_of mm ''f:metadata'' of
                Some (JObject mdata) \<Rightarrow>
                  (case map_of mdata ''f:labels'' of
                     Some (JObject l) \<Rightarrow> getManagedLabels_loop (Some l) managedFields manager
                   | _ \<Rightarrow> getManagedLabels_loop lbls managedFields manager)
              | _ \<Rightarrow> Inl (Panic ''interface conversion: interface {} is not map[string]interface {}''))))"

definition getManagedLabels ::
  "ManagedFieldsEntry list \<Rightarrow> string \<Rightarrow> abort + (string \<times> json) list option" where
  "getManagedLabels managedFields manager = getManagedLabels_loop None managedFields manager"

text \<open>\<^verbatim>\<open>_, ok := m[k]\<close> on a map that may be nil.\<close>

fun has_key :: "(string \<times> 'v) list option \<Rightarrow> string \<Rightarrow> bool" where
  "has_key None k = False"
| "has_key (Some m) k = (map_of m k \<noteq> None)"

text \<open>
  The loop of \<^verbatim>\<open>resourceKubernetesLabelsRead\<close> over the fetched labels (variant A lines
  135--141): a key is deleted when it is neither managed nor configured.
\<close>

definition stripUnmanaged ::
  "(string \<times> json) list option \<Rightarrow> label_map \<Rightarrow> label_map \<Rightarrow> label_map" where
  "stripUnmanaged managedLabels configuredLabels lbls =
     filter (\<lambda>(k, v).
        let managed = has_key managedLabels (''f:'' @ k);
            configured = has_key (Some configuredLabels) k
        in \<not> (\<not> managed \<and> \<not> configured)) lbls"

text \<open>
  \<^verbatim>\<open>resourceKubernetesLabelsRead\<close> of variant A after the client \<^verbatim>\<open>r\<close> is resolved (lines
  121--144): fetch the object, compute the managed labels, strip, store.
\<close>

definition fetchLabels_A ::
  "('w, 'g, 'b) KubeClientsets \<Rightarrow> 'w \<Rightarrow> ResourceData \<Rightarrow> ResourceInterface
    \<Rightarrow> outcome \<times> ResourceData \<times> 'w" where
  "fetchLabels_A m w d r =
    (case Get m w r (Name (metadata d)) of
       Inl err \<Rightarrow> (Diagnostics (FromErr err), d, w)
     | Inr res \<Rightarrow>
        (let configuredLabels = labels d in
         case getManagedLabels (GetManagedFields res) (defaultFieldManagerName m) of
           Inl (Panic p) \<Rightarrow> (Panicked p, d, w)
         | Inl (ReturnErr err) \<Rightarrow> (Diagnostics (FromErr err), d, w)
         | Inr managedLabels \<Rightarrow>
            (Diagnostics [],
             d\<lparr>labels := stripUnmanaged managedLabels configuredLabels (GetLabels res)\<rparr>,
             w)))"

definition resourceKubernetesLabelsRead_A ::
  "('w, 'g, 'b) KubeClientsets \<Rightarrow> 'w \<Rightarrow> ResourceData \<Rightarrow> outcome \<times> ResourceData \<times> 'w" where
  "resourceKubernetesLabelsRead_A m w d =
    (case resourceClient m w d of
       Inl diags \<Rightarrow> (Diagnostics diags, d, w)
     | Inr (r, namespacedResource, namespace) \<Rightarrow> fetchLabels_A m w d r)"

text \<open>
  The patch object of \<^verbatim>\<open>resourceKubernetesLabelsUpdate\<close> (variant A lines 208--226): the
  configured labels, or the empty map when the ID is empty.
\<close>

definition patchobj_A :: "ResourceData \<Rightarrow> bool \<Rightarrow> string \<Rightarrow> json" where
  "patchobj_A d namespacedResource namespace =
    (let lbls = (if Id_d d = '''' then [] else labels d);
         patchmeta = [(''name'', JString (Name (metadata d))),
                      (''labels'', JObject (map (\<lambda>(k, v). (k, JString v)) lbls))]
                     @ (if namespacedResource then [(''namespace'', JString namespace)] else [])
     in JObject [(''apiVersion'', JString (api_version d)),
                 (''kind'', JString (kind d)),
                 (''metadata'', JObject patchmeta)])"

text \<open>
  \<^verbatim>\<open>resourceKubernetesLabelsUpdate\<close> of variant A after the client is resolved (lines
  208--247): marshal the patch object, send it as an apply patch, end in the read.
\<close>

definition applyLabels_A ::
  "('w, 'g, 'b) KubeClientsets \<Rightarrow> 'w \<Rightarrow> ResourceData \<Rightarrow> ResourceInterface \<Rightarrow> bool \<Rightarrow> string
    \<Rightarrow> outcome \<times> ResourceData \<times> 'w" where
  "applyLabels_A m w d r namespacedResource namespace =
    (case Unstructured_MarshalJSON m (patchobj_A d namespacedResource namespace) of
       Inl err \<Rightarrow> (Diagnostics (FromErr err), d, w)
     | Inr patchbytes \<Rightarrow>
        (case Patch m w r (Name (metadata d)) ApplyPatchType patchbytes
                \<lparr>FieldManager = defaultFieldManagerName m, Force = Some (force d)\<rparr> of
           Inl err \<Rightarrow> (Diagnostics (FromErr err), d, w)
         | Inr w' \<Rightarrow> resourceKubernetesLabelsRead_A m w' d))"

definition resourceKubernetesLabelsUpdate_A ::
  "('w, 'g, 'b) KubeClientsets \<Rightarrow> 'w \<Rightarrow> ResourceData \<Rightarrow> outcome \<times> ResourceData \<times> 'w" where
  "resourceKubernetesLabelsUpdate_A m w d =
    (case resourceClient m w d of
       Inl diags \<Rightarrow> (Diagnostics diags, d, w)
     | Inr (r, namespacedResource, namespace) \<Rightarrow>
        applyLabels_A m w d r namespacedResource namespace)"

definition resourceKubernetesLabelsCreate_A ::
  "('w, 'g, 'b) KubeClientsets \<Rightarrow> 'w \<Rightarrow> ResourceData \<Rightarrow> outcome \<times> ResourceData \<times> 'w" where
  "resourceKubernetesLabelsCreate_A m w d =
     resourceKubernetesLabelsUpdate_A m w
       (d\<lparr>Id_d := buildIdWithVersionKind m (metadata d) (api_version d) (kind d)\<rparr>)"

definition resourceKubernetesLabelsDelete_A ::
  "('w, 'g, 'b) KubeClientsets \<Rightarrow> 'w \<Rightarrow> ResourceData \<Rightarrow> outcome \<times> ResourceData \<times> 'w" where
  "resourceKubernetesLabelsDelete_A m w d = resourceKubernetesLabelsUpdate_A m w (d\<lparr>Id_d := ''''\<rparr>)"

section \<open>Variant B: JSON patch\<close>

text \<open>
  Modelled from the spec: \<^verbatim>\<open>diffStringMap\<close>, which variant B calls and which is declared
  in a file of the package that is not among the sources. The specification says that
  it computes a minimal JSON-patch (RFC 6902) add/remove/replace sequence from the old
  and the new label map, and that old \<open>{a:1,b:2}\<close> and new \<open>{b:3,c:4}\<close> give remove a,
  replace b=3, add c=4. So, for an old map that is not empty: a remove for every old
  key the new map lacks, then for every new entry an add when the old map lacks the key
  and a replace when it holds another value; a key with the same value on both sides
  gives no operation. The documentation of the resource says that existing labels
  which the configuration leaves out are destroyed when the resource is created, that
  is, when the old map is empty: then the diff is one add of the whole new map at the
  path of the label map itself, which replaces the map. The path of the label map is
  the prefix without its trailing slash; the path of a key is that path, a slash and
  the key as a JSON-pointer token (RFC 6901: \<open>~\<close> is written \<open>~0\<close> and \<open>/\<close> is written \<open>~1\<close>).
\<close>

definition escapeJsonPointer :: "string \<Rightarrow> string" where
  "escapeJsonPointer k =
     concat (map (\<lambda>c. if c = CHR ''~'' then ''~0'' else if c = CHR ''/'' then ''~1'' else [c]) k)"

definition trimRightSlash :: "string \<Rightarrow> string" where
  "trimRightSlash path = rev (dropWhile (\<lambda>c. c = CHR ''/'') (rev path))"

definition diffStringMap :: "string \<Rightarrow> label_map \<Rightarrow> label_map \<Rightarrow> PatchOperation list" where
  "diffStringMap pathPrefix oldV newV =
    (let pfx = trimRightSlash pathPrefix in
     if oldV = [] then [AddOperation pfx (JObject (map (\<lambda>(k, v). (k, JString v)) newV))]
     else
       map (\<lambda>(k, v). RemoveOperation (pfx @ ''/'' @ escapeJsonPointer k))
           (filter (\<lambda>(k, v). map_of newV k = None) oldV)
       @ concat (map (\<lambda>(k, v).
           case map_of oldV k of
             None \<Rightarrow> [AddOperation (pfx @ ''/'' @ escapeJsonPointer k) (JString v)]
           | Some oldValue \<Rightarrow>
               if oldValue = v then []
               else [ReplaceOperation (pfx @ ''/'' @ escapeJsonPointer k) (JString v)]) newV))"

text \<open>
  \<^verbatim>\<open>resourceKubernetesLabelsRead\<close> of variant B after the client is resolved (lines
  114--121).
\<close>

definition fetchLabels_B ::
  "('w, 'g, 'b) KubeClientsets \<Rightarrow> 'w \<Rightarrow> ResourceData \<Rightarrow> ResourceInterface
    \<Rightarrow> outcome \<times> ResourceData \<times> 'w" where
  "fetchLabels_B m w d r =
    (case Get m w r (Name (metadata d)) of
       Inl err \<Rightarrow> (Diagnostics (FromErr err), d, w)
     | Inr res \<Rightarrow> (Diagnostics [], d\<lparr>labels := GetLabels res\<rparr>, w))"

definition resourceKubernetesLabelsRead_B ::
  "('w, 'g, 'b) KubeClientsets \<Rightarrow> 'w \<Rightarrow> ResourceData \<Rightarrow> outcome \<times> ResourceData \<times> 'w" where
  "resourceKubernetesLabelsRead_B m w d =
    (case resourceClient m w d of
       Inl diags \<Rightarrow> (Diagnostics diags, d, w)
     | Inr (r, namespacedResource, namespace) \<Rightarrow> fetchLabels_B m w d r)"

text \<open>
  The patch of \<^verbatim>\<open>resourceKubernetesLabelsUpdate\<close> (variant B lines 164--171): the new
  side of the change is replaced by the empty map when the ID is empty.
\<close>

definition patch_B :: "ResourceData \<Rightarrow> PatchOperation list" where
  "patch_B d =
    (let old = labels_old d;
         new = (if Id_d d = '''' then [] else labels d)
     in diffStringMap ''/metadata/labels/'' old new)"

text \<open>
  \<^verbatim>\<open>resourceKubernetesLabelsUpdate\<close> of variant B after the client is resolved (lines
  164--190): marshal the operations, send them as a JSON patch, end in the read.
\<close>

definition patchLabels_B ::
  "('w, 'g, 'b) KubeClientsets \<Rightarrow> 'w \<Rightarrow> ResourceData \<Rightarrow> ResourceInterface
    \<Rightarrow> outcome \<times> ResourceData \<times> 'w" where
  "patchLabels_B m w d r =
    (case PatchOperations_MarshalJSON m (patch_B d) of
       Inl err \<Rightarrow> (Diagnostics (FromErr err), d, w)
     | Inr patchbytes \<Rightarrow>
        (case Patch m w r (Name (metadata d)) JSONPatchType patchbytes
                \<lparr>FieldManager = defaultFieldManagerName m, Force = None\<rparr> of
           Inl err \<Rightarrow> (Diagnostics (FromErr err), d, w)
         | Inr w' \<Rightarrow> resourceKubernetesLabelsRead_B m w' d))"

definition resourceKubernetesLabelsUpdate_B ::
  "('w, 'g, 'b) KubeClientsets \<Rightarrow> 'w \<Rightarrow> ResourceData \<Rightarrow> outcome \<times> ResourceData \<times> 'w" where
  "resourceKubernetesLabelsUpdate_B m w d =
    (case resourceClient m w d of
       Inl diags \<Rightarrow> (Diagnostics diags, d, w)
     | Inr (r, namespacedResource, namespace) \<Rightarrow> patchLabels_B m w d r)"


definition resourceKubernetesLabelsDelete_B ::
  "('w, 'g, 'b) KubeClientsets \<Rightarrow> 'w \<Rightarrow> ResourceData \<Rightarrow> outcome \<times> ResourceData \<times> 'w" where
  "resourceKubernetesLabelsDelete_B m w d = resourceKubernetesLabelsUpdate_B m w (d\<lparr>Id_d := ''''\<rparr>)"

section \<open>A test double of the remote API\<close>

text \<open>
  A small in-memory cluster that stands for the remote API server where a property
  is evaluated at a concrete input. It holds one object; a marshalled patch is the
  document itself. A JSON patch is applied to the label map as RFC 6902 says (add
  sets a member, or the whole map when its path is the map's; remove and replace
  need the member to exist). An apply patch sets
  the applied labels, drops the labels the manager owned and no longer applies,
  keeps every other label, and records the applied keys under the manager; without
  force, changing the value of a label the manager does not own is a conflict.
\<close>

record cluster =
  c_resource :: ResourceInterface
  c_name :: string
  c_labels :: label_map
  c_managedFields :: "ManagedFieldsEntry list"
  c_discovery_error :: "error option"

datatype patch_bytes = ApplyBytes json | OperationsBytes "PatchOperation list"

type_synonym discovery = "((GroupKind \<times> string) \<times> RESTMapping) list"

definition test_ParseGroupVersion :: "string \<Rightarrow> error + GroupVersion" where
  "test_ParseGroupVersion gv =
    (let n = length (filter (\<lambda>c. c = CHR ''/'') gv) in
     if gv = [] \<or> gv = ''/'' then Inr (GroupVersion [] [])
     else if n = 0 then Inr (GroupVersion [] gv)
     else if n = 1 then Inr (GroupVersion (takeWhile (\<lambda>c. c \<noteq> CHR ''/'') gv)
                                          (tl (dropWhile (\<lambda>c. c \<noteq> CHR ''/'') gv)))
     else Inl (Err (''unexpected GroupVersion string: '' @ gv)))"

definition test_GetAPIGroupResources :: "cluster \<Rightarrow> discovery \<times> error option" where
  "test_GetAPIGroupResources w =
    (case c_discovery_error w of
       Some err \<Rightarrow> ([], Some err)
     | None \<Rightarrow>
        ([((GroupKind [] ''ConfigMap'', ''v1''),
           RESTMapping (GroupVersionResource [] ''v1'' ''configmaps'') RESTScopeNameNamespace),
          ((GroupKind [] ''Node'', ''v1''),
           RESTMapping (GroupVersionResource [] ''v1'' ''nodes'') RESTScopeNameRoot)], None))"

definition test_RESTMapping :: "discovery \<Rightarrow> GroupKind \<Rightarrow> string \<Rightarrow> error + RESTMapping" where
  "test_RESTMapping agr gk version =
    (case map_of agr (gk, version) of
       None \<Rightarrow> Inl (Err ''no matches for kind'')
     | Some mapping \<Rightarrow> Inr mapping)"

definition test_Get :: "cluster \<Rightarrow> ResourceInterface \<Rightarrow> string \<Rightarrow> error + Unstructured" where
  "test_Get w r name =
    (if r = c_resource w \<and> name = c_name w
     then Inr \<lparr>GetLabels = c_labels w, GetManagedFields = c_managedFields w\<rparr>
     else Inl (Err ''not found''))"

text \<open>The key a JSON-pointer token stands for, and the key a path under the label map names.\<close>

fun unescapeJsonPointer :: "string \<Rightarrow> string" where
  "unescapeJsonPointer [] = []"
| "unescapeJsonPointer [c] = [c]"
| "unescapeJsonPointer (c # c' # cs) =
     (if c = CHR ''~'' \<and> c' = CHR ''1'' then CHR ''/'' # unescapeJsonPointer cs
      else if c = CHR ''~'' \<and> c' = CHR ''0'' then CHR ''~'' # unescapeJsonPointer cs
      else c # unescapeJsonPointer (c' # cs))"

definition labelKey :: "string \<Rightarrow> string option" where
  "labelKey path =
    (if take 17 path = ''/metadata/labels/'' then Some (unescapeJsonPointer (drop 17 path))
     else None)"

fun stringMembers :: "(string \<times> json) list \<Rightarrow> label_map" where
  "stringMembers [] = []"
| "stringMembers ((k, JString v) # kvs) = (k, v) # stringMembers kvs"
| "stringMembers (_ # kvs) = stringMembers kvs"

fun applyOperation :: "label_map \<Rightarrow> PatchOperation \<Rightarrow> error + label_map" where
  "applyOperation lbls (AddOperation path v) =
     (if path = ''/metadata/labels''
      then (case v of
              JObject members \<Rightarrow> Inr (stringMembers members)
            | _ \<Rightarrow> Inl (Err ''the label map is not an object''))
      else case (labelKey path, v) of
             (Some k, JString s) \<Rightarrow> Inr (AList.update k s lbls)
           | (Some k, _) \<Rightarrow> Inl (Err ''a label is not a string'')
           | (None, _) \<Rightarrow> Inl (Err ''path outside the labels''))"
| "applyOperation lbls (RemoveOperation path) =
     (case labelKey path of
        None \<Rightarrow> Inl (Err ''path outside the labels'')
      | Some k \<Rightarrow> if map_of lbls k = None then Inl (Err ''remove: missing member'')
                  else Inr (AList.delete k lbls))"
| "applyOperation lbls (ReplaceOperation path v) =
     (case (labelKey path, v) of
        (Some k, JString s) \<Rightarrow>
          if map_of lbls k = None then Inl (Err ''replace: missing member'')
          else Inr (AList.update k s lbls)
      | (Some k, _) \<Rightarrow> Inl (Err ''a label is not a string'')
      | (None, _) \<Rightarrow> Inl (Err ''path outside the labels''))"

fun applyOperations :: "label_map \<Rightarrow> PatchOperation list \<Rightarrow> error + label_map" where
  "applyOperations lbls [] = Inr lbls"
| "applyOperations lbls (op # ops) =
     (case applyOperation lbls op of
        Inl err \<Rightarrow> Inl err
      | Inr lbls' \<Rightarrow> applyOperations lbls' ops)"

text \<open>The labels of an applied configuration: the string members of \<open>metadata.labels\<close>.\<close>

definition appliedLabels :: "json \<Rightarrow> label_map" where
  "appliedLabels body =
    (case body of
       JObject members \<Rightarrow>
        (case map_of members ''metadata'' of
           Some (JObject mdata) \<Rightarrow>
            (case map_of mdata ''labels'' of
               Some (JObject ls) \<Rightarrow> stringMembers ls
             | _ \<Rightarrow> [])
         | _ \<Rightarrow> [])
     | _ \<Rightarrow> [])"

definition ownedLabels :: "ManagedFieldsEntry list \<Rightarrow> string \<Rightarrow> (string \<times> json) list option" where
  "ownedLabels managedFields manager =
    (case getManagedLabels managedFields manager of Inr owned \<Rightarrow> owned | Inl _ \<Rightarrow> None)"

definition fieldsOf :: "string \<Rightarrow> label_map \<Rightarrow> ManagedFieldsEntry" where
  "fieldsOf manager applied =
     \<lparr>Manager = manager,
      FieldsV1 = Some (Inr (JObject [(''f:metadata'',
                   JObject [(''f:labels'',
                      JObject (map (\<lambda>(k, v). (''f:'' @ k, JObject [])) applied))])]))\<rparr>"

definition test_Patch ::
  "cluster \<Rightarrow> ResourceInterface \<Rightarrow> string \<Rightarrow> PatchType \<Rightarrow> patch_bytes \<Rightarrow> PatchOptions
    \<Rightarrow> error + cluster" where
  "test_Patch w r name pt body opts =
    (if \<not> (r = c_resource w \<and> name = c_name w) then Inl (Err ''not found'')
     else case (pt, body) of
       (JSONPatchType, OperationsBytes ops) \<Rightarrow>
         (case applyOperations (c_labels w) ops of
            Inl err \<Rightarrow> Inl err
          | Inr lbls \<Rightarrow> Inr (w\<lparr>c_labels := lbls\<rparr>))
     | (ApplyPatchType, ApplyBytes obj) \<Rightarrow>
         (let applied = appliedLabels obj;
              owned = ownedLabels (c_managedFields w) (FieldManager opts);
              conflict = (\<exists>(k, v) \<in> set applied.
                 \<not> has_key owned (''f:'' @ k) \<and> map_of (c_labels w) k \<noteq> None
                 \<and> map_of (c_labels w) k \<noteq> Some v)
          in if conflict \<and> Force opts \<noteq> Some True then Inl (Err ''Apply failed with conflicts'')
             else Inr (w\<lparr>c_labels := applied @ filter (\<lambda>(k, v).
                            \<not> has_key owned (''f:'' @ k) \<and> \<not> has_key (Some applied) k) (c_labels w),
                         c_managedFields := fieldsOf (FieldManager opts) applied
                            # filter (\<lambda>e. Manager e \<noteq> FieldManager opts) (c_managedFields w)\<rparr>))
     | _ \<Rightarrow> Inl (Err ''unsupported patch''))"

definition test_buildId :: "ObjectMeta \<Rightarrow> string \<Rightarrow> string \<Rightarrow> string" where
  "test_buildId meta apiVersion knd =
     ''apiVersion='' @ apiVersion @ '',kind='' @ knd @ '',namespace='' @ Namespace meta
       @ '',name='' @ Name meta"

definition testClientsets :: "(cluster, discovery, patch_bytes) KubeClientsets" where
  "testClientsets =
    \<lparr>DynamicClient = None,
     DiscoveryClient = None,
     GetAPIGroupResources = test_GetAPIGroupResources,
     ParseGroupVersion = test_ParseGroupVersion,
     RESTMapping_of = test_RESTMapping,
     Get = test_Get,
     Unstructured_MarshalJSON = (\<lambda>obj. Inr (ApplyBytes obj)),
     PatchOperations_MarshalJSON = (\<lambda>ops. Inr (OperationsBytes ops)),
     Patch = test_Patch,
     defaultFieldManagerName = ''Terraform'',
     buildIdWithVersionKind = test_buildId\<rparr>"

text \<open>A ConfigMap \<open>my-config\<close> in the namespace \<open>default\<close>, and a record that manages it.\<close>

definition configMap :: "label_map \<Rightarrow> ManagedFieldsEntry list \<Rightarrow> cluster" where
  "configMap lbls managedFields =
    \<lparr>c_resource = \<lparr>ri_resource = GroupVersionResource [] ''v1'' ''configmaps'',
                   ri_namespace = Some ''default''\<rparr>,
     c_name = ''my-config'',
     c_labels = lbls,
     c_managedFields = managedFields,
     c_discovery_error = None\<rparr>"

definition configMapLabels :: "string \<Rightarrow> label_map \<Rightarrow> label_map \<Rightarrow> ResourceData" where
  "configMapLabels ident old new =
    \<lparr>Id_d = ident, api_version = ''v1'', kind = ''ConfigMap'',
     metadata = \<lparr>Name = ''my-config'', Namespace = []\<rparr>,
     labels_old = old, labels = new, force = False\<rparr>"

text \<open>A managed-fields entry of the manager \<open>Terraform\<close> whose raw fields decode to \<open>j\<close>.\<close>

definition tfEntry :: "json \<Rightarrow> ManagedFieldsEntry" where
  "tfEntry j = \<lparr>Manager = ''Terraform'', FieldsV1 = Some (Inr j)\<rparr>"

text \<open>A record that manages the labels of the cluster-scoped Node \<open>node-1\<close>.\<close>

definition nodeLabels :: "string \<Rightarrow> label_map \<Rightarrow> label_map \<Rightarrow> ResourceData" where
  "nodeLabels ns old new =
    \<lparr>Id_d = ''id'', api_version = ''v1'', kind = ''Node'',
     metadata = \<lparr>Name = ''node-1'', Namespace = ns\<rparr>,
     labels_old = old, labels = new, force = False\<rparr>"

text \<open>A cluster whose only object has another name, so that \<open>my-config\<close> is not found.\<close>

definition missingObject :: cluster where
  "missingObject = (configMap [] [])\<lparr>c_name := ''another-config''\<rparr>"

text \<open>The ConfigMap after the manager \<open>Terraform\<close> applied the labels a and b.\<close>

definition appliedAB :: cluster where
  "appliedAB = configMap [(''a'', ''1''), (''b'', ''2'')]
     [tfEntry (JObject [(''f:metadata'', JObject [(''f:labels'',
        JObject [(''f:a'', JObject []), (''f:b'', JObject [])])])])]"

text \<open>A cluster whose discovery call fails.\<close>

definition discoveryDown :: cluster where
  "discoveryDown = (configMap [] [])\<lparr>c_discovery_error := Some (Err ''discovery failed'')\<rparr>"

section \<open>Basic facts about the operations\<close>

lemma FromErr_nonempty: "FromErr err \<noteq> []"
  by (cases err) simp

lemma resourceClient_diags_nonempty: "resourceClient m w d = Inl diags \<Longrightarrow> diags \<noteq> []"
  by (auto simp: resourceClient_def Let_def FromErr_nonempty
           split: option.splits sum.splits prod.splits if_splits)

text \<open>
  The unchecked error of \<^verbatim>\<open>GetAPIGroupResources\<close> has no effect on what the program does:
  only the first result of the call is used.
\<close>

lemma resourceClient_ignores_discovery_error:
  "resourceClient (m\<lparr>GetAPIGroupResources := \<lambda>w. (agr, Some err)\<rparr>) w d
     = resourceClient (m\<lparr>GetAPIGroupResources := \<lambda>w. (agr, None)\<rparr>) w d"
  by (simp add: resourceClient_def Let_def split: option.splits sum.splits)

text \<open>
  Every error the program tests is handed to the framework through \<^verbatim>\<open>diag.FromErr\<close> as
  it is, and the operation ends there with the record and the server state it had.
\<close>

lemma resourceClient_checked_errors:
  "DynamicClient m = Some err \<Longrightarrow> resourceClient m w d = Inl (FromErr err)"
  "DynamicClient m = None \<Longrightarrow> DiscoveryClient m = Some err
     \<Longrightarrow> resourceClient m w d = Inl (FromErr err)"
  "DynamicClient m = None \<Longrightarrow> DiscoveryClient m = None
     \<Longrightarrow> ParseGroupVersion m (api_version d) = Inl err
     \<Longrightarrow> resourceClient m w d = Inl (FromErr err)"
  "DynamicClient m = None \<Longrightarrow> DiscoveryClient m = None
     \<Longrightarrow> ParseGroupVersion m (api_version d) = Inr gv
     \<Longrightarrow> RESTMapping_of m (fst (GetAPIGroupResources m w)) (GroupKind (Group gv) (kind d))
           (Version gv) = Inl err
     \<Longrightarrow> resourceClient m w d = Inl (FromErr err)"
  by (simp_all add: resourceClient_def Let_def case_prod_beta)

lemma operation_checked_errors:
  "resourceClient m w d = Inl diags \<Longrightarrow>
     resourceKubernetesLabelsRead_A m w d = (Diagnostics diags, d, w)
     \<and> resourceKubernetesLabelsRead_B m w d = (Diagnostics diags, d, w)
     \<and> resourceKubernetesLabelsUpdate_A m w d = (Diagnostics diags, d, w)
     \<and> resourceKubernetesLabelsUpdate_B m w d = (Diagnostics diags, d, w)"
  "Get m w r (Name (metadata d)) = Inl err \<Longrightarrow>
     fetchLabels_A m w d r = (Diagnostics (FromErr err), d, w)
     \<and> fetchLabels_B m w d r = (Diagnostics (FromErr err), d, w)"
  "Get m w r (Name (metadata d)) = Inr res \<Longrightarrow>
     getManagedLabels (GetManagedFields res) (defaultFieldManagerName m) = Inl (ReturnErr err) \<Longrightarrow>
     fetchLabels_A m w d r = (Diagnostics (FromErr err), d, w)"
  "Unstructured_MarshalJSON m (patchobj_A d nsd ns) = Inl err \<Longrightarrow>
     applyLabels_A m w d r nsd ns = (Diagnostics (FromErr err), d, w)"
  "Unstructured_MarshalJSON m (patchobj_A d nsd ns) = Inr b \<Longrightarrow>
     Patch m w r (Name (metadata d)) ApplyPatchType b
        \<lparr>FieldManager = defaultFieldManagerName m, Force = Some (force d)\<rparr> = Inl err \<Longrightarrow>
     applyLabels_A m w d r nsd ns = (Diagnostics (FromErr err), d, w)"
  "PatchOperations_MarshalJSON m (patch_B d) = Inl err \<Longrightarrow>
     patchLabels_B m w d r = (Diagnostics (FromErr err), d, w)"
  "PatchOperations_MarshalJSON m (patch_B d) = Inr b \<Longrightarrow>
     Patch m w r (Name (metadata d)) JSONPatchType b
        \<lparr>FieldManager = defaultFieldManagerName m, Force = None\<rparr> = Inl err \<Longrightarrow>
     patchLabels_B m w d r = (Diagnostics (FromErr err), d, w)"
  by (simp_all add: resourceKubernetesLabelsRead_A_def resourceKubernetesLabelsRead_B_def
        resourceKubernetesLabelsUpdate_A_def resourceKubernetesLabelsUpdate_B_def
        fetchLabels_A_def fetchLabels_B_def applyLabels_A_def patchLabels_B_def)

lemma map_of_filter_key:
  "map_of (filter (\<lambda>(k, v). P k) xs) k = (if P k then map_of xs k else None)"
  by (induction xs) auto

lemma stripUnmanaged_filter:
  "stripUnmanaged managedLabels configuredLabels lbls =
     filter (\<lambda>(k, v). has_key managedLabels (''f:'' @ k) \<or> has_key (Some configuredLabels) k) lbls"
  by (simp add: stripUnmanaged_def Let_def)

lemma map_of_stripUnmanaged:
  "map_of (stripUnmanaged managedLabels configuredLabels lbls) k =
     (if has_key managedLabels (''f:'' @ k) \<or> has_key (Some configuredLabels) k
      then map_of lbls k else None)"
  unfolding stripUnmanaged_filter
  by (rule map_of_filter_key [of "\<lambda>k. has_key managedLabels (''f:'' @ k) \<or> has_key (Some configuredLabels) k"])


text \<open>A read hands back the server state it was given, and no operation restores the ID.\<close>

lemma Read_A_world: "snd (snd (resourceKubernetesLabelsRead_A m w d)) = w"
  by (simp add: resourceKubernetesLabelsRead_A_def fetchLabels_A_def Let_def
        split: sum.splits abort.splits prod.splits)

lemma Read_B_world: "snd (snd (resourceKubernetesLabelsRead_B m w d)) = w"
  by (simp add: resourceKubernetesLabelsRead_B_def fetchLabels_B_def
        split: sum.splits prod.splits)

lemma fetchLabels_A_Id: "fetchLabels_A m w d r = (out, d', w') \<Longrightarrow> Id_d d' = Id_d d"
  by (auto simp: fetchLabels_A_def Let_def split: sum.splits abort.splits)

lemma Read_A_Id: "resourceKubernetesLabelsRead_A m w d = (out, d', w') \<Longrightarrow> Id_d d' = Id_d d"
  by (auto simp: resourceKubernetesLabelsRead_A_def split: sum.splits dest: fetchLabels_A_Id)

lemma Update_A_Id: "resourceKubernetesLabelsUpdate_A m w d = (out, d', w') \<Longrightarrow> Id_d d' = Id_d d"
  by (auto simp: resourceKubernetesLabelsUpdate_A_def applyLabels_A_def
           split: sum.splits dest: Read_A_Id)

lemma Read_B_Id: "resourceKubernetesLabelsRead_B m w d = (out, d', w') \<Longrightarrow> Id_d d' = Id_d d"
  by (auto simp: resourceKubernetesLabelsRead_B_def fetchLabels_B_def split: sum.splits)

lemma Update_B_Id: "resourceKubernetesLabelsUpdate_B m w d = (out, d', w') \<Longrightarrow> Id_d d' = Id_d d"
  by (auto simp: resourceKubernetesLabelsUpdate_B_def patchLabels_B_def
           split: sum.splits dest: Read_B_Id)

text \<open>What a read that returns no diagnostics has stored.\<close>

lemma Read_A_success:
  assumes "resourceKubernetesLabelsRead_A m w d = (Diagnostics [], d', w')"
  shows "\<exists>r res ml. Get m w r (Name (metadata d)) = Inr res
        \<and> d' = d\<lparr>labels := stripUnmanaged ml (labels d) (GetLabels res)\<rparr>"
proof (cases "resourceClient m w d")
  case (Inl diags)
  with assms show ?thesis
    by (simp add: resourceKubernetesLabelsRead_A_def resourceClient_diags_nonempty)
next
  case (Inr t)
  obtain r nsd ns where t: "t = (r, nsd, ns)" by (cases t)
  from assms Inr t have f: "fetchLabels_A m w d r = (Diagnostics [], d', w')"
    by (simp add: resourceKubernetesLabelsRead_A_def)
  then obtain res where g: "Get m w r (Name (metadata d)) = Inr res"
    by (cases "Get m w r (Name (metadata d))") (simp_all add: fetchLabels_A_def FromErr_nonempty)
  from f g obtain ml where "d' = d\<lparr>labels := stripUnmanaged ml (labels d) (GetLabels res)\<rparr>"
    by (auto simp: fetchLabels_A_def Let_def FromErr_nonempty split: sum.splits abort.splits)
  with g show ?thesis by blast
qed

lemma Read_B_success:
  assumes "resourceKubernetesLabelsRead_B m w d = (Diagnostics [], d', w')"
  shows "\<exists>r res. Get m w r (Name (metadata d)) = Inr res \<and> d' = d\<lparr>labels := GetLabels res\<rparr>"
proof (cases "resourceClient m w d")
  case (Inl diags)
  with assms show ?thesis
    by (simp add: resourceKubernetesLabelsRead_B_def resourceClient_diags_nonempty)
next
  case (Inr t)
  obtain r nsd ns where t: "t = (r, nsd, ns)" by (cases t)
  from assms Inr t have f: "fetchLabels_B m w d r = (Diagnostics [], d', w')"
    by (simp add: resourceKubernetesLabelsRead_B_def)
  then obtain res where g: "Get m w r (Name (metadata d)) = Inr res"
    by (cases "Get m w r (Name (metadata d))") (simp_all add: fetchLabels_B_def FromErr_nonempty)
  from f g have "d' = d\<lparr>labels := GetLabels res\<rparr>"
    by (simp add: fetchLabels_B_def)
  with g show ?thesis by blast
qed

text \<open>An update that returns no diagnostics ended in a read of the state its patch left.\<close>

lemma Update_A_success:
  assumes "resourceKubernetesLabelsUpdate_A m w d = (Diagnostics [], d', w')"
  shows "resourceKubernetesLabelsRead_A m w' d = (Diagnostics [], d', w')"
proof -
  from assms obtain w1 where r: "resourceKubernetesLabelsRead_A m w1 d = (Diagnostics [], d', w')"
    by (auto simp: resourceKubernetesLabelsUpdate_A_def applyLabels_A_def
          resourceClient_diags_nonempty FromErr_nonempty split: sum.splits)
  with Read_A_world [of m w1 d] have "w' = w1" by simp
  with r show ?thesis by simp
qed

lemma Update_B_success:
  assumes "resourceKubernetesLabelsUpdate_B m w d = (Diagnostics [], d', w')"
  shows "resourceKubernetesLabelsRead_B m w' d = (Diagnostics [], d', w')"
proof -
  from assms obtain w1 where r: "resourceKubernetesLabelsRead_B m w1 d = (Diagnostics [], d', w')"
    by (auto simp: resourceKubernetesLabelsUpdate_B_def patchLabels_B_def
          resourceClient_diags_nonempty FromErr_nonempty split: sum.splits)
  with Read_B_world [of m w1 d] have "w' = w1" by simp
  with r show ?thesis by simp
qed

text \<open>The loop of \<^verbatim>\<open>getManagedLabels\<close> over a list in two parts, and over other managers' entries.\<close>

lemma getManagedLabels_loop_append:
  "getManagedLabels_loop acc (xs @ ys) manager =
     (case getManagedLabels_loop acc xs manager of
        Inl a \<Rightarrow> Inl a
      | Inr acc' \<Rightarrow> getManagedLabels_loop acc' ys manager)"
  by (induction acc xs manager rule: getManagedLabels_loop.induct)
     (auto split: option.splits sum.splits json.splits)

lemma getManagedLabels_loop_skip:
  "\<forall>x \<in> set xs. Manager x \<noteq> manager \<Longrightarrow> getManagedLabels_loop acc xs manager = Inr acc"
  by (induction xs) auto

lemma resourceClient_Id: "resourceClient m w (d\<lparr>Id_d := ident\<rparr>) = resourceClient m w d"
  by (simp add: resourceClient_def Let_def case_prod_beta split: option.splits sum.splits)

section \<open>The diff of variant B and what it does to a label map\<close>

text \<open>
  The operations of the diff over the prefix \<open>/metadata/labels/\<close>, and the label map
  they leave when the test double applies them to the old map.
\<close>

lemma trimRightSlash_labels: "trimRightSlash ''/metadata/labels/'' = ''/metadata/labels''"
  by (simp add: trimRightSlash_def)

lemma set_remove_part:
  "set (map (\<lambda>(k, v). RemoveOperation (p @ escapeJsonPointer k))
            (filter (\<lambda>(k, v). map_of new k = None) old))
       = {RemoveOperation (p @ escapeJsonPointer k) | k.
            k \<in> fst ` set old \<and> map_of new k = None}"
  by (induction old) auto

lemma entry_ops_iff:
  "op \<in> set (case map_of old k of
                 None \<Rightarrow> [AddOperation (p @ escapeJsonPointer k) (JString v)]
               | Some oldValue \<Rightarrow>
                   if oldValue = v then []
                   else [ReplaceOperation (p @ escapeJsonPointer k) (JString v)])
   \<longleftrightarrow> (map_of old k = None \<and> op = AddOperation (p @ escapeJsonPointer k) (JString v))
        \<or> (\<exists>oldValue. map_of old k = Some oldValue \<and> oldValue \<noteq> v
              \<and> op = ReplaceOperation (p @ escapeJsonPointer k) (JString v))"
  by (cases "map_of old k") auto

lemma set_add_replace_part:
  "set (concat (map (\<lambda>(k, v).
         case map_of old k of
           None \<Rightarrow> [AddOperation (p @ escapeJsonPointer k) (JString v)]
         | Some oldValue \<Rightarrow>
             if oldValue = v then []
             else [ReplaceOperation (p @ escapeJsonPointer k) (JString v)]) new))
       = {AddOperation (p @ escapeJsonPointer k) (JString v) | k v.
            (k, v) \<in> set new \<and> map_of old k = None}
         \<union> {ReplaceOperation (p @ escapeJsonPointer k) (JString v) | k v.
            (k, v) \<in> set new \<and> (\<exists>oldValue. map_of old k = Some oldValue \<and> oldValue \<noteq> v)}"
proof (rule set_eqI)
  fix op
  have "op \<in> set (concat (map (\<lambda>(k, v).
         case map_of old k of
           None \<Rightarrow> [AddOperation (p @ escapeJsonPointer k) (JString v)]
         | Some oldValue \<Rightarrow>
             if oldValue = v then []
             else [ReplaceOperation (p @ escapeJsonPointer k) (JString v)]) new))
    \<longleftrightarrow> (\<exists>k v. (k, v) \<in> set new \<and>
          op \<in> set (case map_of old k of
                 None \<Rightarrow> [AddOperation (p @ escapeJsonPointer k) (JString v)]
               | Some oldValue \<Rightarrow>
                   if oldValue = v then []
                   else [ReplaceOperation (p @ escapeJsonPointer k) (JString v)]))"
    by (simp add: split_def) (metis prod.collapse fst_conv snd_conv)
  then show "op \<in> set (concat (map (\<lambda>(k, v).
         case map_of old k of
           None \<Rightarrow> [AddOperation (p @ escapeJsonPointer k) (JString v)]
         | Some oldValue \<Rightarrow>
             if oldValue = v then []
             else [ReplaceOperation (p @ escapeJsonPointer k) (JString v)]) new))
    \<longleftrightarrow> op \<in> {AddOperation (p @ escapeJsonPointer k) (JString v) | k v.
            (k, v) \<in> set new \<and> map_of old k = None}
         \<union> {ReplaceOperation (p @ escapeJsonPointer k) (JString v) | k v.
            (k, v) \<in> set new \<and> (\<exists>oldValue. map_of old k = Some oldValue \<and> oldValue \<noteq> v)}"
    unfolding entry_ops_iff by blast
qed

lemma diffStringMap_labels_empty:
  "diffStringMap ''/metadata/labels/'' [] new
     = [AddOperation ''/metadata/labels'' (JObject (map (\<lambda>(k, v). (k, JString v)) new))]"
  by (simp add: diffStringMap_def trimRightSlash_labels)

lemma diffStringMap_labels_nonempty:
  "old \<noteq> [] \<Longrightarrow> diffStringMap ''/metadata/labels/'' old new
     = map (\<lambda>(k, v). RemoveOperation (''/metadata/labels/'' @ escapeJsonPointer k))
           (filter (\<lambda>(k, v). map_of new k = None) old)
       @ concat (map (\<lambda>(k, v).
           case map_of old k of
             None \<Rightarrow> [AddOperation (''/metadata/labels/'' @ escapeJsonPointer k) (JString v)]
           | Some oldValue \<Rightarrow>
               if oldValue = v then []
               else [ReplaceOperation (''/metadata/labels/'' @ escapeJsonPointer k) (JString v)]) new)"
  by (simp add: diffStringMap_def trimRightSlash_labels Let_def cong: option.case_cong if_cong)

lemma set_diffStringMap_labels:
  assumes "old \<noteq> []"
  shows "set (diffStringMap ''/metadata/labels/'' old new) =
     {RemoveOperation (''/metadata/labels/'' @ escapeJsonPointer k) | k.
        k \<in> fst ` set old \<and> map_of new k = None}
     \<union> {AddOperation (''/metadata/labels/'' @ escapeJsonPointer k) (JString v) | k v.
        (k, v) \<in> set new \<and> map_of old k = None}
     \<union> {ReplaceOperation (''/metadata/labels/'' @ escapeJsonPointer k) (JString v) | k v.
        (k, v) \<in> set new \<and> (\<exists>oldValue. map_of old k = Some oldValue \<and> oldValue \<noteq> v)}"
  unfolding diffStringMap_labels_nonempty [OF assms] set_append set_remove_part set_add_replace_part
  by (simp add: Un_assoc)















section \<open>Runs on the test double\<close>

lemma test_resourceClient:
  "resourceClient testClientsets (configMap lbls mf) (configMapLabels ident old new)
     = Inr (\<lparr>ri_resource = GroupVersionResource [] ''v1'' ''configmaps'',
              ri_namespace = Some ''default''\<rparr>, True, ''default'')"
  by (simp add: resourceClient_def testClientsets_def configMap_def configMapLabels_def
        test_GetAPIGroupResources_def test_ParseGroupVersion_def test_RESTMapping_def Let_def)

lemma test_Get_configMap:
  "Get testClientsets (configMap lbls mf)
      \<lparr>ri_resource = GroupVersionResource [] ''v1'' ''configmaps'', ri_namespace = Some ''default''\<rparr>
      (Name (metadata (configMapLabels ident old new)))
     = Inr \<lparr>GetLabels = lbls, GetManagedFields = mf\<rparr>"
  by (simp add: testClientsets_def configMap_def configMapLabels_def test_Get_def)



lemma configMapLabels_sel:
  "Id_d (configMapLabels ident old new) = ident"
  "labels (configMapLabels ident old new) = new"
  "labels_old (configMapLabels ident old new) = old"
  "force (configMapLabels ident old new) = False"
  "Name (metadata (configMapLabels ident old new)) = ''my-config''"
  "(configMapLabels ident old new)\<lparr>labels := lbls\<rparr> = configMapLabels ident old lbls"
  "(configMapLabels ident old new)\<lparr>Id_d := ident'\<rparr> = configMapLabels ident' old new"
  "(configMapLabels ident old new)\<lparr>labels_old := old'\<rparr> = configMapLabels ident old' new"
  by (simp_all add: configMapLabels_def)

lemma configMap_sel:
  "c_labels (configMap lbls mf) = lbls"
  "c_managedFields (configMap lbls mf) = mf"
  by (simp_all add: configMap_def)


lemma configMap_update:
  "(configMap lbls mf)\<lparr>c_labels := lbls'\<rparr> = configMap lbls' mf"
  "(configMap lbls mf)\<lparr>c_labels := lbls', c_managedFields := mf'\<rparr> = configMap lbls' mf'"
  by (simp_all add: configMap_def)












section \<open>What a read stores\<close>

text \<open>
  Claim C3. Let the client be resolved and the object be fetched. In variant A, when
  \<^verbatim>\<open>getManagedLabels\<close> returns the managed labels, the read stores the fetched labels
  without exactly those keys that are neither configured nor among the managed labels
  (as \<open>f:\<close> followed by the key): a lookup in the stored map gives the remote value for
  a key that is managed or configured and nothing for any other key. In variant B the
  read stores the fetched label map as it is.
\<close>

theorem read_stored_labels:
  assumes "resourceClient m w d = Inr (r, namespacedResource, namespace)"
    and "Get m w r (Name (metadata d)) = Inr res"
  shows "(getManagedLabels (GetManagedFields res) (defaultFieldManagerName m) = Inr managedLabels \<longrightarrow>
           resourceKubernetesLabelsRead_A m w d =
             (Diagnostics [],
              d\<lparr>labels := filter (\<lambda>(k, v). has_key managedLabels (''f:'' @ k)
                                           \<or> has_key (Some (labels d)) k) (GetLabels res)\<rparr>,
              w)
           \<and> (\<forall>k. map_of (labels (fst (snd (resourceKubernetesLabelsRead_A m w d)))) k =
                  (if has_key managedLabels (''f:'' @ k) \<or> has_key (Some (labels d)) k
                   then map_of (GetLabels res) k else None)))
       \<and> resourceKubernetesLabelsRead_B m w d = (Diagnostics [], d\<lparr>labels := GetLabels res\<rparr>, w)"
proof (intro conjI impI)
  assume ml: "getManagedLabels (GetManagedFields res) (defaultFieldManagerName m) = Inr managedLabels"
  have rd: "resourceKubernetesLabelsRead_A m w d =
      (Diagnostics [], d\<lparr>labels := stripUnmanaged managedLabels (labels d) (GetLabels res)\<rparr>, w)"
    using assms ml by (simp add: resourceKubernetesLabelsRead_A_def fetchLabels_A_def)
  then show "resourceKubernetesLabelsRead_A m w d =
             (Diagnostics [],
              d\<lparr>labels := filter (\<lambda>(k, v). has_key managedLabels (''f:'' @ k)
                                           \<or> has_key (Some (labels d)) k) (GetLabels res)\<rparr>,
              w)"
    by (simp add: stripUnmanaged_filter)
  show "\<forall>k. map_of (labels (fst (snd (resourceKubernetesLabelsRead_A m w d)))) k =
                  (if has_key managedLabels (''f:'' @ k) \<or> has_key (Some (labels d)) k
                   then map_of (GetLabels res) k else None)"
    by (simp add: rd map_of_stripUnmanaged)
next
  show "resourceKubernetesLabelsRead_B m w d = (Diagnostics [], d\<lparr>labels := GetLabels res\<rparr>, w)"
    using assms by (simp add: resourceKubernetesLabelsRead_B_def fetchLabels_B_def)
qed

theorem read_stored_labels_witness:
  "resourceKubernetesLabelsRead_A testClientsets
      (configMap [(''a'', ''1''), (''b'', ''2''), (''env'', ''prod'')]
         [tfEntry (JObject [(''f:metadata'', JObject [(''f:labels'', JObject [(''f:b'', JObject [])])])])])
      (configMapLabels ''id'' [] [(''a'', ''0'')])
    = (Diagnostics [],
       configMapLabels ''id'' [] [(''a'', ''1''), (''b'', ''2'')],
       configMap [(''a'', ''1''), (''b'', ''2''), (''env'', ''prod'')]
         [tfEntry (JObject [(''f:metadata'', JObject [(''f:labels'', JObject [(''f:b'', JObject [])])])])])
   \<and> resourceKubernetesLabelsRead_B testClientsets
      (configMap [(''a'', ''1''), (''b'', ''2''), (''env'', ''prod'')] [])
      (configMapLabels ''id'' [] [(''a'', ''0'')])
    = (Diagnostics [],
       configMapLabels ''id'' [] [(''a'', ''1''), (''b'', ''2''), (''env'', ''prod'')],
       configMap [(''a'', ''1''), (''b'', ''2''), (''env'', ''prod'')] [])"
proof -
  have ml: "getManagedLabels
      (GetManagedFields \<lparr>GetLabels = [(''a'', ''1''), (''b'', ''2''), (''env'', ''prod'')],
         GetManagedFields = [tfEntry (JObject [(''f:metadata'',
            JObject [(''f:labels'', JObject [(''f:b'', JObject [])])])])]\<rparr>)
      (defaultFieldManagerName testClientsets) = Inr (Some [(''f:b'', JObject [])])"
    by (simp add: getManagedLabels_def tfEntry_def testClientsets_def)
  have a: "resourceKubernetesLabelsRead_A testClientsets
      (configMap [(''a'', ''1''), (''b'', ''2''), (''env'', ''prod'')]
         [tfEntry (JObject [(''f:metadata'', JObject [(''f:labels'', JObject [(''f:b'', JObject [])])])])])
      (configMapLabels ''id'' [] [(''a'', ''0'')])
    = (Diagnostics [],
       configMapLabels ''id'' [] [(''a'', ''1''), (''b'', ''2'')],
       configMap [(''a'', ''1''), (''b'', ''2''), (''env'', ''prod'')]
         [tfEntry (JObject [(''f:metadata'', JObject [(''f:labels'', JObject [(''f:b'', JObject [])])])])])"
    using read_stored_labels [OF test_resourceClient test_Get_configMap, THEN conjunct1, rule_format, OF ml]
    by (simp add: configMapLabels_def)
  have b: "resourceKubernetesLabelsRead_B testClientsets
      (configMap [(''a'', ''1''), (''b'', ''2''), (''env'', ''prod'')] [])
      (configMapLabels ''id'' [] [(''a'', ''0'')])
    = (Diagnostics [],
       configMapLabels ''id'' [] [(''a'', ''1''), (''b'', ''2''), (''env'', ''prod'')],
       configMap [(''a'', ''1''), (''b'', ''2''), (''env'', ''prod'')] [])"
    using read_stored_labels [OF test_resourceClient test_Get_configMap, THEN conjunct2]
    by (simp add: configMapLabels_def)
  from a b show ?thesis by simp
qed

section \<open>A read leaves the remote labels alone\<close>

text \<open>
  Claim C4. Let the client be resolved and the object be fetched, and let the object
  carry a label whose key is neither among the configured labels nor among the labels
  \<^verbatim>\<open>getManagedLabels\<close> attributes to the tool's field manager. Then the read of either
  variant ends without diagnostics and hands back the server state unchanged: it
  sends nothing to the server, so the object fetched after the read is the object
  fetched before it and still carries the label. (What the read stores is
  another matter: the stored map of variant B holds the label, the stored map of
  variant A holds the fetched labels that are managed or configured and so leaves the
  key out.)
\<close>

theorem read_keeps_remote_label:
  assumes "resourceClient m w d = Inr (r, namespacedResource, namespace)"
    and "Get m w r (Name (metadata d)) = Inr res"
    and "map_of (GetLabels res) k = Some v"
    and "\<not> has_key (Some (labels d)) k"
    and "getManagedLabels (GetManagedFields res) (defaultFieldManagerName m) = Inr managedLabels"
    and "\<not> has_key managedLabels (''f:'' @ k)"
  shows "resourceKubernetesLabelsRead_A m w d =
           (Diagnostics [],
            d\<lparr>labels := filter (\<lambda>(k', v'). has_key managedLabels (''f:'' @ k')
                                           \<or> has_key (Some (labels d)) k') (GetLabels res)\<rparr>,
            w)
       \<and> resourceKubernetesLabelsRead_B m w d = (Diagnostics [], d\<lparr>labels := GetLabels res\<rparr>, w)
       \<and> Get m (snd (snd (resourceKubernetesLabelsRead_A m w d))) r (Name (metadata d)) = Inr res
       \<and> Get m (snd (snd (resourceKubernetesLabelsRead_B m w d))) r (Name (metadata d)) = Inr res
       \<and> map_of (labels (fst (snd (resourceKubernetesLabelsRead_B m w d)))) k = Some v
       \<and> map_of (labels (fst (snd (resourceKubernetesLabelsRead_A m w d)))) k = None"
proof -
  have a: "resourceKubernetesLabelsRead_A m w d =
      (Diagnostics [], d\<lparr>labels := stripUnmanaged managedLabels (labels d) (GetLabels res)\<rparr>, w)"
    using assms(1,2,5) by (simp add: resourceKubernetesLabelsRead_A_def fetchLabels_A_def)
  have b: "resourceKubernetesLabelsRead_B m w d = (Diagnostics [], d\<lparr>labels := GetLabels res\<rparr>, w)"
    using assms(1,2) by (simp add: resourceKubernetesLabelsRead_B_def fetchLabels_B_def)
  have s: "map_of (stripUnmanaged managedLabels (labels d) (GetLabels res)) k = None"
    using assms(4,6) by (simp only: map_of_stripUnmanaged) simp
  have f: "stripUnmanaged managedLabels (labels d) (GetLabels res)
             = filter (\<lambda>(k', v'). has_key managedLabels (''f:'' @ k')
                                    \<or> has_key (Some (labels d)) k') (GetLabels res)"
    by (rule stripUnmanaged_filter)
  show ?thesis
    unfolding a b f [symmetric] using assms(2,3) s by simp
qed

theorem read_keeps_remote_label_witness:
  "resourceKubernetesLabelsRead_A testClientsets
      (configMap [(''env'', ''prod''), (''a'', ''1'')]
         [tfEntry (JObject [(''f:metadata'', JObject [(''f:labels'', JObject [(''f:a'', JObject [])])])])])
      (configMapLabels ''id'' [] [(''a'', ''1'')])
    = (Diagnostics [], configMapLabels ''id'' [] [(''a'', ''1'')],
       configMap [(''env'', ''prod''), (''a'', ''1'')]
         [tfEntry (JObject [(''f:metadata'', JObject [(''f:labels'', JObject [(''f:a'', JObject [])])])])])
   \<and> map_of (c_labels (snd (snd (resourceKubernetesLabelsRead_A testClientsets
      (configMap [(''env'', ''prod''), (''a'', ''1'')]
         [tfEntry (JObject [(''f:metadata'', JObject [(''f:labels'', JObject [(''f:a'', JObject [])])])])])
      (configMapLabels ''id'' [] [(''a'', ''1'')]))))) ''env'' = Some ''prod''
   \<and> map_of (c_labels (snd (snd (resourceKubernetesLabelsRead_B testClientsets
      (configMap [(''env'', ''prod''), (''a'', ''1'')]
         [tfEntry (JObject [(''f:metadata'', JObject [(''f:labels'', JObject [(''f:a'', JObject [])])])])])
      (configMapLabels ''id'' [] [(''a'', ''1'')]))))) ''env'' = Some ''prod''"
proof -
  let ?mf = "[tfEntry (JObject [(''f:metadata'', JObject [(''f:labels'', JObject [(''f:a'', JObject [])])])])]"
  let ?w = "configMap [(''env'', ''prod''), (''a'', ''1'')] ?mf"
  let ?d = "configMapLabels ''id'' [] [(''a'', ''1'')]"
  have l: "map_of (GetLabels \<lparr>GetLabels = [(''env'', ''prod''), (''a'', ''1'')],
                               GetManagedFields = ?mf\<rparr>) ''env'' = Some ''prod''"
    by simp
  have n: "\<not> has_key (Some (labels ?d)) ''env''"
    by (simp add: configMapLabels_sel)
  have ml: "getManagedLabels
      (GetManagedFields \<lparr>GetLabels = [(''env'', ''prod''), (''a'', ''1'')], GetManagedFields = ?mf\<rparr>)
      (defaultFieldManagerName testClientsets) = Inr (Some [(''f:a'', JObject [])])"
    by (simp add: getManagedLabels_def tfEntry_def testClientsets_def)
  have nm: "\<not> has_key (Some [(''f:a'', JObject [])]) (''f:'' @ ''env'')"
    by simp
  note t = read_keeps_remote_label [OF test_resourceClient test_Get_configMap l n ml nm]
  have ra: "resourceKubernetesLabelsRead_A testClientsets ?w ?d
              = (Diagnostics [], configMapLabels ''id'' [] [(''a'', ''1'')], ?w)"
    by code_simp
  from t have wa: "snd (snd (resourceKubernetesLabelsRead_A testClientsets ?w ?d)) = ?w"
    by simp
  from t have wb: "snd (snd (resourceKubernetesLabelsRead_B testClientsets ?w ?d)) = ?w"
    by simp
  show ?thesis
    unfolding wa wb using ra by (simp add: configMap_sel)
qed

section \<open>Errors of the remote calls\<close>

text \<open>
  Claim C5, evaluated where the discovery call fails. On a cluster whose
  \<^verbatim>\<open>GetAPIGroupResources\<close> returns the error \<open>discovery failed\<close> and no groups, read and
  update of both variants return the diagnostic of the mapping lookup, \<open>no matches for
  kind\<close>; the discovery error is in no diagnostic.
\<close>

lemma run_discovery_Read_A:
  "resourceKubernetesLabelsRead_A testClientsets discoveryDown (configMapLabels ''id'' [] [(''a'', ''1'')])
    = (Diagnostics [Diagnostic Error ''no matches for kind''],
       configMapLabels ''id'' [] [(''a'', ''1'')], discoveryDown)"
  by code_simp

lemma run_discovery_Read_B:
  "resourceKubernetesLabelsRead_B testClientsets discoveryDown (configMapLabels ''id'' [] [(''a'', ''1'')])
    = (Diagnostics [Diagnostic Error ''no matches for kind''],
       configMapLabels ''id'' [] [(''a'', ''1'')], discoveryDown)"
  by code_simp

lemma run_discovery_Update_A:
  "resourceKubernetesLabelsUpdate_A testClientsets discoveryDown (configMapLabels ''id'' [] [(''a'', ''1'')])
    = (Diagnostics [Diagnostic Error ''no matches for kind''],
       configMapLabels ''id'' [] [(''a'', ''1'')], discoveryDown)"
  by code_simp

lemma run_discovery_Update_B:
  "resourceKubernetesLabelsUpdate_B testClientsets discoveryDown (configMapLabels ''id'' [] [(''a'', ''1'')])
    = (Diagnostics [Diagnostic Error ''no matches for kind''],
       configMapLabels ''id'' [] [(''a'', ''1'')], discoveryDown)"
  by code_simp

theorem discovery_error_is_dropped:
  "GetAPIGroupResources testClientsets discoveryDown = ([], Some (Err ''discovery failed''))
   \<and> FromErr (Err ''discovery failed'') = [Diagnostic Error ''discovery failed'']
   \<and> resourceKubernetesLabelsRead_A testClientsets discoveryDown (configMapLabels ''id'' [] [(''a'', ''1'')])
       = (Diagnostics [Diagnostic Error ''no matches for kind''],
          configMapLabels ''id'' [] [(''a'', ''1'')], discoveryDown)
   \<and> resourceKubernetesLabelsRead_B testClientsets discoveryDown (configMapLabels ''id'' [] [(''a'', ''1'')])
       = (Diagnostics [Diagnostic Error ''no matches for kind''],
          configMapLabels ''id'' [] [(''a'', ''1'')], discoveryDown)
   \<and> resourceKubernetesLabelsUpdate_A testClientsets discoveryDown (configMapLabels ''id'' [] [(''a'', ''1'')])
       = (Diagnostics [Diagnostic Error ''no matches for kind''],
          configMapLabels ''id'' [] [(''a'', ''1'')], discoveryDown)
   \<and> resourceKubernetesLabelsUpdate_B testClientsets discoveryDown (configMapLabels ''id'' [] [(''a'', ''1'')])
       = (Diagnostics [Diagnostic Error ''no matches for kind''],
          configMapLabels ''id'' [] [(''a'', ''1'')], discoveryDown)"
  using run_discovery_Read_A run_discovery_Read_B run_discovery_Update_A run_discovery_Update_B
  by (simp add: testClientsets_def test_GetAPIGroupResources_def discoveryDown_def)

section \<open>The namespace of the target\<close>

text \<open>
  Claim C6. Let the clients be built, the apiVersion parse and the kind have a REST
  mapping. For a namespace-scoped kind and an empty namespace attribute, the client
  that read and update of both variants use for \<^verbatim>\<open>Get\<close> and \<^verbatim>\<open>Patch\<close> is the one of
  the namespace \<open>default\<close>, and variant A writes \<open>default\<close> into its patch object. For a
  cluster-scoped kind the client has no namespace and the patch object of variant A
  gets no namespace member.
\<close>

theorem namespace_defaulting:
  assumes "DynamicClient m = None" and "DiscoveryClient m = None"
    and "ParseGroupVersion m (api_version d) = Inr gv"
    and "RESTMapping_of m (fst (GetAPIGroupResources m w)) (GroupKind (Group gv) (kind d)) (Version gv)
           = Inr mapping"
  shows "(Scope mapping = RESTScopeNameNamespace \<and> Namespace (metadata d) = '''' \<longrightarrow>
           (let r = \<lparr>ri_resource = Resource mapping, ri_namespace = Some ''default''\<rparr> in
            resourceClient m w d = Inr (r, True, ''default'')
            \<and> resourceKubernetesLabelsRead_A m w d = fetchLabels_A m w d r
            \<and> resourceKubernetesLabelsRead_B m w d = fetchLabels_B m w d r
            \<and> resourceKubernetesLabelsUpdate_A m w d = applyLabels_A m w d r True ''default''
            \<and> resourceKubernetesLabelsUpdate_B m w d = patchLabels_B m w d r))
       \<and> (Scope mapping = RESTScopeNameRoot \<longrightarrow>
           (let r = \<lparr>ri_resource = Resource mapping, ri_namespace = None\<rparr> in
            resourceClient m w d = Inr (r, False, Namespace (metadata d))
            \<and> resourceKubernetesLabelsRead_A m w d = fetchLabels_A m w d r
            \<and> resourceKubernetesLabelsRead_B m w d = fetchLabels_B m w d r
            \<and> resourceKubernetesLabelsUpdate_A m w d = applyLabels_A m w d r False (Namespace (metadata d))
            \<and> resourceKubernetesLabelsUpdate_B m w d = patchLabels_B m w d r))"
proof -
  have rc1: "Scope mapping = RESTScopeNameNamespace \<Longrightarrow> Namespace (metadata d) = '''' \<Longrightarrow>
      resourceClient m w d
        = Inr (\<lparr>ri_resource = Resource mapping, ri_namespace = Some ''default''\<rparr>, True, ''default'')"
    using assms by (simp add: resourceClient_def Let_def case_prod_beta)
  have rc2: "Scope mapping = RESTScopeNameRoot \<Longrightarrow>
      resourceClient m w d
        = Inr (\<lparr>ri_resource = Resource mapping, ri_namespace = None\<rparr>, False, Namespace (metadata d))"
    using assms by (simp add: resourceClient_def Let_def case_prod_beta)
  show ?thesis
    using rc1 rc2
    by (simp add: Let_def resourceKubernetesLabelsRead_A_def resourceKubernetesLabelsRead_B_def
          resourceKubernetesLabelsUpdate_A_def resourceKubernetesLabelsUpdate_B_def)
qed

theorem namespace_defaulting_witness:
  "resourceClient testClientsets (configMap [] []) (configMapLabels ''id'' [] [])
     = Inr (\<lparr>ri_resource = GroupVersionResource [] ''v1'' ''configmaps'',
              ri_namespace = Some ''default''\<rparr>, True, ''default'')
   \<and> resourceClient testClientsets (configMap [] []) (nodeLabels ''kube-system'' [] [])
     = Inr (\<lparr>ri_resource = GroupVersionResource [] ''v1'' ''nodes'', ri_namespace = None\<rparr>,
            False, ''kube-system'')"
proof -
  have c: "DynamicClient testClientsets = None" "DiscoveryClient testClientsets = None"
    by (simp_all add: testClientsets_def)
  have p1: "ParseGroupVersion testClientsets (api_version (configMapLabels ''id'' [] []))
             = Inr (GroupVersion [] ''v1'')"
    by (simp add: testClientsets_def configMapLabels_def test_ParseGroupVersion_def)
  have m1: "RESTMapping_of testClientsets (fst (GetAPIGroupResources testClientsets (configMap [] [])))
              (GroupKind (Group (GroupVersion [] ''v1'')) (kind (configMapLabels ''id'' [] [])))
              (Version (GroupVersion [] ''v1''))
            = Inr (RESTMapping (GroupVersionResource [] ''v1'' ''configmaps'') RESTScopeNameNamespace)"
    by (simp add: testClientsets_def configMapLabels_def configMap_def test_RESTMapping_def
          test_GetAPIGroupResources_def)
  have p2: "ParseGroupVersion testClientsets (api_version (nodeLabels ''kube-system'' [] []))
             = Inr (GroupVersion [] ''v1'')"
    by (simp add: testClientsets_def nodeLabels_def test_ParseGroupVersion_def)
  have m2: "RESTMapping_of testClientsets (fst (GetAPIGroupResources testClientsets (configMap [] [])))
              (GroupKind (Group (GroupVersion [] ''v1'')) (kind (nodeLabels ''kube-system'' [] [])))
              (Version (GroupVersion [] ''v1''))
            = Inr (RESTMapping (GroupVersionResource [] ''v1'' ''nodes'') RESTScopeNameRoot)"
    by (simp add: testClientsets_def nodeLabels_def configMap_def test_RESTMapping_def
          test_GetAPIGroupResources_def)
  have a: "resourceClient testClientsets (configMap [] []) (configMapLabels ''id'' [] [])
     = Inr (\<lparr>ri_resource = GroupVersionResource [] ''v1'' ''configmaps'',
              ri_namespace = Some ''default''\<rparr>, True, ''default'')"
    using namespace_defaulting [OF c p1 m1] by (simp add: Let_def configMapLabels_def)
  have b: "resourceClient testClientsets (configMap [] []) (nodeLabels ''kube-system'' [] [])
     = Inr (\<lparr>ri_resource = GroupVersionResource [] ''v1'' ''nodes'', ri_namespace = None\<rparr>,
            False, ''kube-system'')"
    using namespace_defaulting [OF c p2 m2] by (simp add: Let_def nodeLabels_def)
  from a b show ?thesis by simp
qed

section \<open>Delete\<close>

text \<open>
  Claim C8. The delete is the update run on the record with the ID set to the empty
  string. When the client is resolved, that update marshals a patch built from an
  empty desired-label set in place of the configured labels and sends it: variant A
  marshals the patch object whose labels are the empty object and sends it as an apply
  patch under the tool's field manager (with the force flag); variant B marshals the
  diff of the old labels against the empty map and sends it as a JSON patch under the
  tool's field manager; a failure of either call ends the delete with that error and
  the cleared ID, a success ends in the read. With an ID that is not empty the same
  update builds the patch from the configured labels.
\<close>

theorem delete_clears_id_and_updates_with_empty_labels:
  assumes "resourceClient m w d = Inr (r, namespacedResource, namespace)"
  shows "resourceKubernetesLabelsDelete_A m w d = resourceKubernetesLabelsUpdate_A m w (d\<lparr>Id_d := ''''\<rparr>)
   \<and> resourceKubernetesLabelsDelete_B m w d = resourceKubernetesLabelsUpdate_B m w (d\<lparr>Id_d := ''''\<rparr>)
   \<and> resourceKubernetesLabelsUpdate_A m w (d\<lparr>Id_d := ''''\<rparr>) =
       (case Unstructured_MarshalJSON m
               (JObject [(''apiVersion'', JString (api_version d)),
                         (''kind'', JString (kind d)),
                         (''metadata'', JObject ([(''name'', JString (Name (metadata d))),
                                                  (''labels'', JObject [])]
                            @ (if namespacedResource then [(''namespace'', JString namespace)]
                               else [])))]) of
          Inl err \<Rightarrow> (Diagnostics (FromErr err), d\<lparr>Id_d := ''''\<rparr>, w)
        | Inr patchbytes \<Rightarrow>
           (case Patch m w r (Name (metadata d)) ApplyPatchType patchbytes
                   \<lparr>FieldManager = defaultFieldManagerName m, Force = Some (force d)\<rparr> of
              Inl err \<Rightarrow> (Diagnostics (FromErr err), d\<lparr>Id_d := ''''\<rparr>, w)
            | Inr w' \<Rightarrow> resourceKubernetesLabelsRead_A m w' (d\<lparr>Id_d := ''''\<rparr>)))
   \<and> resourceKubernetesLabelsUpdate_B m w (d\<lparr>Id_d := ''''\<rparr>) =
       (case PatchOperations_MarshalJSON m
               (diffStringMap ''/metadata/labels/'' (labels_old d) []) of
          Inl err \<Rightarrow> (Diagnostics (FromErr err), d\<lparr>Id_d := ''''\<rparr>, w)
        | Inr patchbytes \<Rightarrow>
           (case Patch m w r (Name (metadata d)) JSONPatchType patchbytes
                   \<lparr>FieldManager = defaultFieldManagerName m, Force = None\<rparr> of
              Inl err \<Rightarrow> (Diagnostics (FromErr err), d\<lparr>Id_d := ''''\<rparr>, w)
            | Inr w' \<Rightarrow> resourceKubernetesLabelsRead_B m w' (d\<lparr>Id_d := ''''\<rparr>)))
   \<and> (Id_d d \<noteq> '''' \<longrightarrow>
       resourceKubernetesLabelsUpdate_A m w d =
         (case Unstructured_MarshalJSON m
                 (JObject [(''apiVersion'', JString (api_version d)),
                           (''kind'', JString (kind d)),
                           (''metadata'', JObject ([(''name'', JString (Name (metadata d))),
                                (''labels'', JObject (map (\<lambda>(k, v). (k, JString v)) (labels d)))]
                              @ (if namespacedResource then [(''namespace'', JString namespace)]
                                 else [])))]) of
            Inl err \<Rightarrow> (Diagnostics (FromErr err), d, w)
          | Inr patchbytes \<Rightarrow>
             (case Patch m w r (Name (metadata d)) ApplyPatchType patchbytes
                     \<lparr>FieldManager = defaultFieldManagerName m, Force = Some (force d)\<rparr> of
                Inl err \<Rightarrow> (Diagnostics (FromErr err), d, w)
              | Inr w' \<Rightarrow> resourceKubernetesLabelsRead_A m w' d))
       \<and> resourceKubernetesLabelsUpdate_B m w d =
         (case PatchOperations_MarshalJSON m
                 (diffStringMap ''/metadata/labels/'' (labels_old d) (labels d)) of
            Inl err \<Rightarrow> (Diagnostics (FromErr err), d, w)
          | Inr patchbytes \<Rightarrow>
             (case Patch m w r (Name (metadata d)) JSONPatchType patchbytes
                     \<lparr>FieldManager = defaultFieldManagerName m, Force = None\<rparr> of
                Inl err \<Rightarrow> (Diagnostics (FromErr err), d, w)
              | Inr w' \<Rightarrow> resourceKubernetesLabelsRead_B m w' d)))"
  using assms
  by (simp add: resourceKubernetesLabelsDelete_A_def resourceKubernetesLabelsDelete_B_def
        resourceKubernetesLabelsUpdate_A_def resourceKubernetesLabelsUpdate_B_def
        resourceClient_Id applyLabels_A_def patchLabels_B_def patchobj_A_def patch_B_def
        cong: sum.case_cong)

theorem delete_clears_id_and_updates_with_empty_labels_witness:
  "resourceKubernetesLabelsDelete_A testClientsets appliedAB
      (configMapLabels ''id'' [] [(''a'', ''1''), (''b'', ''2'')])
   = (Diagnostics [], configMapLabels [] [] [],
      configMap [] [tfEntry (JObject [(''f:metadata'', JObject [(''f:labels'', JObject [])])])])
   \<and> resourceKubernetesLabelsDelete_B testClientsets (configMap [(''a'', ''1''), (''b'', ''2'')] [])
      (configMapLabels ''id'' [(''a'', ''1''), (''b'', ''2'')] [(''a'', ''1''), (''b'', ''2'')])
   = (Diagnostics [], configMapLabels [] [(''a'', ''1''), (''b'', ''2'')] [], configMap [] [])
   \<and> resourceKubernetesLabelsUpdate_A testClientsets appliedAB
      (configMapLabels ''id'' [] [(''a'', ''1''), (''c'', ''3'')])
   = (Diagnostics [], configMapLabels ''id'' [] [(''a'', ''1''), (''c'', ''3'')],
      configMap [(''a'', ''1''), (''c'', ''3'')]
        [tfEntry (JObject [(''f:metadata'', JObject [(''f:labels'',
           JObject [(''f:a'', JObject []), (''f:c'', JObject [])])])])])"
proof -
  have rc: "resourceClient testClientsets appliedAB (configMapLabels ident old new)
            = Inr (\<lparr>ri_resource = GroupVersionResource [] ''v1'' ''configmaps'',
                     ri_namespace = Some ''default''\<rparr>, True, ''default'')" for ident old new
    unfolding appliedAB_def by (rule test_resourceClient)
  have a: "resourceKubernetesLabelsDelete_A testClientsets appliedAB
      (configMapLabels ''id'' [] [(''a'', ''1''), (''b'', ''2'')])
   = (Diagnostics [], configMapLabels [] [] [],
      configMap [] [tfEntry (JObject [(''f:metadata'', JObject [(''f:labels'', JObject [])])])])"
    by (rule trans [OF delete_clears_id_and_updates_with_empty_labels [OF rc, THEN conjunct1]],
        rule trans [OF delete_clears_id_and_updates_with_empty_labels
          [OF rc, THEN conjunct2, THEN conjunct2, THEN conjunct1]])
       code_simp
  have b: "resourceKubernetesLabelsDelete_B testClientsets (configMap [(''a'', ''1''), (''b'', ''2'')] [])
      (configMapLabels ''id'' [(''a'', ''1''), (''b'', ''2'')] [(''a'', ''1''), (''b'', ''2'')])
   = (Diagnostics [], configMapLabels [] [(''a'', ''1''), (''b'', ''2'')] [], configMap [] [])"
    by (rule trans [OF delete_clears_id_and_updates_with_empty_labels
          [OF test_resourceClient, THEN conjunct2, THEN conjunct1]],
        rule trans [OF delete_clears_id_and_updates_with_empty_labels
          [OF test_resourceClient, THEN conjunct2, THEN conjunct2, THEN conjunct2, THEN conjunct1]])
       code_simp
  have "Id_d (configMapLabels ''id'' [] [(''a'', ''1''), (''c'', ''3'')]) \<noteq> ''''"
    by (simp add: configMapLabels_sel)
  then have c: "resourceKubernetesLabelsUpdate_A testClientsets appliedAB
      (configMapLabels ''id'' [] [(''a'', ''1''), (''c'', ''3'')])
   = (Diagnostics [], configMapLabels ''id'' [] [(''a'', ''1''), (''c'', ''3'')],
      configMap [(''a'', ''1''), (''c'', ''3'')]
        [tfEntry (JObject [(''f:metadata'', JObject [(''f:labels'',
           JObject [(''f:a'', JObject []), (''f:c'', JObject [])])])])])"
    by (rule trans [OF delete_clears_id_and_updates_with_empty_labels
          [OF rc, THEN conjunct2, THEN conjunct2, THEN conjunct2, THEN conjunct2, rule_format,
           THEN conjunct1]])
       code_simp
  from a b c show ?thesis by simp
qed

text \<open>
  Claim C10. Whatever a delete returns, the record it hands back has the empty ID:
  the ID is cleared before the update runs and nothing sets it again, so a delete whose
  update fails with a diagnostic leaves the ID cleared.
\<close>

theorem delete_leaves_id_cleared:
  "(resourceKubernetesLabelsDelete_A m w d = (out, d', w1) \<longrightarrow> Id_d d' = '''')
   \<and> (resourceKubernetesLabelsDelete_B m w d = (out, d', w1) \<longrightarrow> Id_d d' = '''')"
  by (auto simp: resourceKubernetesLabelsDelete_A_def resourceKubernetesLabelsDelete_B_def
           dest: Update_A_Id Update_B_Id)

lemma run_delete_A_fails:
  "resourceKubernetesLabelsDelete_A testClientsets missingObject
      (configMapLabels ''apiVersion=v1,kind=ConfigMap,namespace=,name=my-config''
         [(''a'', ''1'')] [(''a'', ''1'')])
    = (Diagnostics [Diagnostic Error ''not found''],
       configMapLabels [] [(''a'', ''1'')] [(''a'', ''1'')], missingObject)"
  by code_simp

lemma run_delete_B_fails:
  "resourceKubernetesLabelsDelete_B testClientsets missingObject
      (configMapLabels ''apiVersion=v1,kind=ConfigMap,namespace=,name=my-config''
         [(''a'', ''1'')] [(''a'', ''1'')])
    = (Diagnostics [Diagnostic Error ''not found''],
       configMapLabels [] [(''a'', ''1'')] [(''a'', ''1'')], missingObject)"
  by code_simp

theorem delete_leaves_id_cleared_witness:
  "resourceKubernetesLabelsDelete_A testClientsets missingObject
      (configMapLabels ''apiVersion=v1,kind=ConfigMap,namespace=,name=my-config''
         [(''a'', ''1'')] [(''a'', ''1'')])
    = (Diagnostics [Diagnostic Error ''not found''],
       configMapLabels [] [(''a'', ''1'')] [(''a'', ''1'')], missingObject)
   \<and> resourceKubernetesLabelsDelete_B testClientsets missingObject
      (configMapLabels ''apiVersion=v1,kind=ConfigMap,namespace=,name=my-config''
         [(''a'', ''1'')] [(''a'', ''1'')])
    = (Diagnostics [Diagnostic Error ''not found''],
       configMapLabels [] [(''a'', ''1'')] [(''a'', ''1'')], missingObject)
   \<and> Id_d (configMapLabels [] [(''a'', ''1'')] [(''a'', ''1'')]) = ''''"
  using delete_leaves_id_cleared
    [of testClientsets missingObject
        "configMapLabels ''apiVersion=v1,kind=ConfigMap,namespace=,name=my-config''
           [(''a'', ''1'')] [(''a'', ''1'')]"
        "Diagnostics [Diagnostic Error ''not found'']"
        "configMapLabels [] [(''a'', ''1'')] [(''a'', ''1'')]" missingObject]
    run_delete_A_fails run_delete_B_fails
  by simp

section \<open>Which labels a delete removes\<close>





section \<open>The diff of variant B\<close>

text \<open>
  Claim C2 says that in general the diff is a strict add/remove/replace set between
  the old and the new map. For an empty old map it is not: the patch of an update
  with no stored label and the configured label \<open>c\<close> is not the add of the member
  \<open>c\<close> but one add of the whole new map at the path of the label map, and the update
  that sends it replaces the label map of the object, so that a label \<open>env\<close>, which is
  in neither map, is gone.
\<close>

theorem diff_of_empty_old_map_sets_whole_label_map:
  "patch_B (configMapLabels ''id'' [] [(''c'', ''4'')])
     = [AddOperation ''/metadata/labels'' (JObject [(''c'', JString ''4'')])]
   \<and> patch_B (configMapLabels ''id'' [] [(''c'', ''4'')])
     \<noteq> [AddOperation ''/metadata/labels/c'' (JString ''4'')]
   \<and> resourceKubernetesLabelsUpdate_B testClientsets (configMap [(''env'', ''prod'')] [])
        (configMapLabels ''id'' [] [(''c'', ''4'')])
     = (Diagnostics [], configMapLabels ''id'' [] [(''c'', ''4'')], configMap [(''c'', ''4'')] [])"
proof -
  have p: "patch_B (configMapLabels ''id'' [] [(''c'', ''4'')])
     = [AddOperation ''/metadata/labels'' (JObject [(''c'', JString ''4'')])]"
    by code_simp
  have u: "resourceKubernetesLabelsUpdate_B testClientsets (configMap [(''env'', ''prod'')] [])
        (configMapLabels ''id'' [] [(''c'', ''4'')])
     = (Diagnostics [], configMapLabels ''id'' [] [(''c'', ''4'')], configMap [(''c'', ''4'')] [])"
    by code_simp
  from p u show ?thesis by simp
qed

text \<open>
  Claim C2, amended. In variant B, when the client is resolved and the ID is not
  empty, the update marshals its patch and sends it as a JSON patch under the tool's
  field manager, and that patch is \<^verbatim>\<open>diffStringMap\<close> over the path prefix
  \<open>/metadata/labels/\<close> of the old and the new side of the labels. For old \<open>{a:1,b:2}\<close>
  and new \<open>{b:3,c:4}\<close> it is exactly: remove a, replace b with 3, add c with 4. For
  every old map that is not empty the operations are exactly: a remove for each old
  key the new map lacks, an add for each new entry whose key the old map lacks, and a
  replace for each new entry whose key the old map holds with another value; the path
  of a key is the prefix followed by the key as a JSON-pointer token. For an empty old
  map the patch is one add of the whole new map at the path \<open>/metadata/labels\<close>.
\<close>

theorem update_B_sends_diff_of_old_and_new:
  assumes "resourceClient m w d = Inr (r, namespacedResource, namespace)"
    and "Id_d d \<noteq> ''''"
  shows "resourceKubernetesLabelsUpdate_B m w d =
       (case PatchOperations_MarshalJSON m (patch_B d) of
          Inl err \<Rightarrow> (Diagnostics (FromErr err), d, w)
        | Inr patchbytes \<Rightarrow>
           (case Patch m w r (Name (metadata d)) JSONPatchType patchbytes
                   \<lparr>FieldManager = defaultFieldManagerName m, Force = None\<rparr> of
              Inl err \<Rightarrow> (Diagnostics (FromErr err), d, w)
            | Inr w' \<Rightarrow> resourceKubernetesLabelsRead_B m w' d))
   \<and> patch_B d = diffStringMap ''/metadata/labels/'' (labels_old d) (labels d)
   \<and> (labels_old d = [(''a'', ''1''), (''b'', ''2'')] \<and> labels d = [(''b'', ''3''), (''c'', ''4'')] \<longrightarrow>
        patch_B d = [RemoveOperation ''/metadata/labels/a'',
                     ReplaceOperation ''/metadata/labels/b'' (JString ''3''),
                     AddOperation ''/metadata/labels/c'' (JString ''4'')])
   \<and> (labels_old d \<noteq> [] \<longrightarrow>
        set (patch_B d) =
          {RemoveOperation (''/metadata/labels/'' @ escapeJsonPointer k) | k.
             k \<in> fst ` set (labels_old d) \<and> map_of (labels d) k = None}
          \<union> {AddOperation (''/metadata/labels/'' @ escapeJsonPointer k) (JString v) | k v.
             (k, v) \<in> set (labels d) \<and> map_of (labels_old d) k = None}
          \<union> {ReplaceOperation (''/metadata/labels/'' @ escapeJsonPointer k) (JString v) | k v.
             (k, v) \<in> set (labels d)
             \<and> (\<exists>oldValue. map_of (labels_old d) k = Some oldValue \<and> oldValue \<noteq> v)})
   \<and> (labels_old d = [] \<longrightarrow>
        patch_B d = [AddOperation ''/metadata/labels''
                       (JObject (map (\<lambda>(k, v). (k, JString v)) (labels d)))])"
proof -
  have p: "patch_B d = diffStringMap ''/metadata/labels/'' (labels_old d) (labels d)"
    using assms(2) by (simp add: patch_B_def)
  have u: "resourceKubernetesLabelsUpdate_B m w d =
       (case PatchOperations_MarshalJSON m (patch_B d) of
          Inl err \<Rightarrow> (Diagnostics (FromErr err), d, w)
        | Inr patchbytes \<Rightarrow>
           (case Patch m w r (Name (metadata d)) JSONPatchType patchbytes
                   \<lparr>FieldManager = defaultFieldManagerName m, Force = None\<rparr> of
              Inl err \<Rightarrow> (Diagnostics (FromErr err), d, w)
            | Inr w' \<Rightarrow> resourceKubernetesLabelsRead_B m w' d))"
    using assms(1) by (simp add: resourceKubernetesLabelsUpdate_B_def patchLabels_B_def)
  have e: "patch_B d = [RemoveOperation ''/metadata/labels/a'',
                     ReplaceOperation ''/metadata/labels/b'' (JString ''3''),
                     AddOperation ''/metadata/labels/c'' (JString ''4'')]"
    if "labels_old d = [(''a'', ''1''), (''b'', ''2'')] \<and> labels d = [(''b'', ''3''), (''c'', ''4'')]"
  proof -
    have "diffStringMap ''/metadata/labels/'' [(''a'', ''1''), (''b'', ''2'')]
            [(''b'', ''3''), (''c'', ''4'')]
          = [RemoveOperation ''/metadata/labels/a'',
             ReplaceOperation ''/metadata/labels/b'' (JString ''3''),
             AddOperation ''/metadata/labels/c'' (JString ''4'')]"
      by code_simp
    with p that show ?thesis by simp
  qed
  have s: "set (patch_B d) =
          {RemoveOperation (''/metadata/labels/'' @ escapeJsonPointer k) | k.
             k \<in> fst ` set (labels_old d) \<and> map_of (labels d) k = None}
          \<union> {AddOperation (''/metadata/labels/'' @ escapeJsonPointer k) (JString v) | k v.
             (k, v) \<in> set (labels d) \<and> map_of (labels_old d) k = None}
          \<union> {ReplaceOperation (''/metadata/labels/'' @ escapeJsonPointer k) (JString v) | k v.
             (k, v) \<in> set (labels d)
             \<and> (\<exists>oldValue. map_of (labels_old d) k = Some oldValue \<and> oldValue \<noteq> v)}"
    if "labels_old d \<noteq> []"
    unfolding p by (rule set_diffStringMap_labels [OF that])
  have n: "patch_B d = [AddOperation ''/metadata/labels''
                       (JObject (map (\<lambda>(k, v). (k, JString v)) (labels d)))]"
    if "labels_old d = []"
    unfolding p that by (rule diffStringMap_labels_empty)
  from u p e s n show ?thesis by blast
qed

theorem update_B_sends_diff_of_old_and_new_witness:
  "patch_B (configMapLabels ''id'' [(''a'', ''1''), (''b'', ''2'')] [(''b'', ''3''), (''c'', ''4'')])
     = [RemoveOperation ''/metadata/labels/a'',
        ReplaceOperation ''/metadata/labels/b'' (JString ''3''),
        AddOperation ''/metadata/labels/c'' (JString ''4'')]
   \<and> resourceKubernetesLabelsUpdate_B testClientsets (configMap [(''a'', ''1''), (''b'', ''2'')] [])
        (configMapLabels ''id'' [(''a'', ''1''), (''b'', ''2'')] [(''b'', ''3''), (''c'', ''4'')])
     = (Diagnostics [],
        configMapLabels ''id'' [(''a'', ''1''), (''b'', ''2'')] [(''b'', ''3''), (''c'', ''4'')],
        configMap [(''b'', ''3''), (''c'', ''4'')] [])
   \<and> patch_B (configMapLabels ''id'' [(''app/x'', ''1''), (''b~'', ''2'')] [(''b~'', ''3''), (''c'', ''4'')])
     = [RemoveOperation ''/metadata/labels/app~1x'',
        ReplaceOperation ''/metadata/labels/b~0'' (JString ''3''),
        AddOperation ''/metadata/labels/c'' (JString ''4'')]"
proof -
  have i: "Id_d (configMapLabels ''id'' old new) \<noteq> ''''" for old new
    by (simp add: configMapLabels_sel)
  have a: "patch_B (configMapLabels ''id'' [(''a'', ''1''), (''b'', ''2'')] [(''b'', ''3''), (''c'', ''4'')])
     = [RemoveOperation ''/metadata/labels/a'',
        ReplaceOperation ''/metadata/labels/b'' (JString ''3''),
        AddOperation ''/metadata/labels/c'' (JString ''4'')]"
    using update_B_sends_diff_of_old_and_new
      [OF test_resourceClient i, THEN conjunct2, THEN conjunct2, THEN conjunct1]
    by (simp add: configMapLabels_sel)
  have b: "resourceKubernetesLabelsUpdate_B testClientsets (configMap [(''a'', ''1''), (''b'', ''2'')] [])
        (configMapLabels ''id'' [(''a'', ''1''), (''b'', ''2'')] [(''b'', ''3''), (''c'', ''4'')])
     = (Diagnostics [],
        configMapLabels ''id'' [(''a'', ''1''), (''b'', ''2'')] [(''b'', ''3''), (''c'', ''4'')],
        configMap [(''b'', ''3''), (''c'', ''4'')] [])"
    by (rule trans [OF update_B_sends_diff_of_old_and_new
          [OF test_resourceClient i, THEN conjunct1]])
       code_simp
  have c: "patch_B (configMapLabels ''id'' [(''app/x'', ''1''), (''b~'', ''2'')] [(''b~'', ''3''), (''c'', ''4'')])
     = [RemoveOperation ''/metadata/labels/app~1x'',
        ReplaceOperation ''/metadata/labels/b~0'' (JString ''3''),
        AddOperation ''/metadata/labels/c'' (JString ''4'')]"
    by (rule trans [OF update_B_sends_diff_of_old_and_new
          [OF test_resourceClient i, THEN conjunct2, THEN conjunct1]])
       code_simp
  from a b c show ?thesis by simp
qed


section \<open>The round trip of an update\<close>





section \<open>Managed labels\<close>

text \<open>
  Claim C9. Let an entry \<open>e\<close> carry this tool's manager name, with raw fields that
  decode to the map \<open>mm\<close>, and let the entries before it be processed without an abort,
  leaving the labels \<open>l0\<close>. If \<open>mm\<close> has no \<open>f:metadata\<close> member, or one that is not a
  JSON object, then \<^verbatim>\<open>getManagedLabels\<close> panics on the unchecked type assertion; it
  does not return an error. If \<open>e\<close> is the last entry with the manager name and has an
  \<open>f:metadata\<close> object with an \<open>f:labels\<close> object \<open>l\<close>, the result is \<open>l\<close>, whatever earlier
  matching entries held: the labels of the last matching entry win. (A last matching
  entry whose \<open>f:metadata\<close> has no \<open>f:labels\<close> object leaves \<open>l0\<close>.)
\<close>

theorem getManagedLabels_panic_and_last_entry:
  assumes "getManagedLabels pre manager = Inr l0"
    and "Manager e = manager" and "FieldsV1 e = Some raw" and "Unmarshal_map raw = Inr mm"
  shows "((\<forall>mdata. map_of mm ''f:metadata'' \<noteq> Some (JObject mdata)) \<longrightarrow>
           getManagedLabels (pre @ e # rest) manager
             = Inl (Panic ''interface conversion: interface {} is not map[string]interface {}''))
       \<and> (map_of mm ''f:metadata'' = Some (JObject mdata) \<and>
          map_of mdata ''f:labels'' = Some (JObject l) \<and>
          (\<forall>x \<in> set rest. Manager x \<noteq> manager) \<longrightarrow>
           getManagedLabels (pre @ e # rest) manager = Inr (Some l))
       \<and> (map_of mm ''f:metadata'' = Some (JObject mdata) \<and>
          (\<forall>l. map_of mdata ''f:labels'' \<noteq> Some (JObject l)) \<and>
          (\<forall>x \<in> set rest. Manager x \<noteq> manager) \<longrightarrow>
           getManagedLabels (pre @ e # rest) manager = Inr l0)"
  using assms
  by (auto simp: getManagedLabels_def getManagedLabels_loop_append getManagedLabels_loop_skip
           split: option.splits json.splits)

theorem getManagedLabels_panic_and_last_entry_witness:
  "getManagedLabels [tfEntry (JObject [(''f:data'', JObject [])])] ''Terraform''
     = Inl (Panic ''interface conversion: interface {} is not map[string]interface {}'')
   \<and> getManagedLabels [tfEntry (JObject [(''f:metadata'', JString ''x'')])] ''Terraform''
     = Inl (Panic ''interface conversion: interface {} is not map[string]interface {}'')
   \<and> getManagedLabels
       [tfEntry (JObject [(''f:metadata'', JObject [(''f:labels'', JObject [(''f:a'', JObject [])])])]),
        tfEntry (JObject [(''f:metadata'', JObject [(''f:labels'', JObject [(''f:b'', JObject [])])])]),
        \<lparr>Manager = ''kubectl'', FieldsV1 = None\<rparr>] ''Terraform''
     = Inr (Some [(''f:b'', JObject [])])
   \<and> getManagedLabels
       [tfEntry (JObject [(''f:metadata'', JObject [(''f:labels'', JObject [(''f:a'', JObject [])])])]),
        tfEntry (JObject [(''f:metadata'', JObject [(''f:annotations'', JObject [])])])] ''Terraform''
     = Inr (Some [(''f:a'', JObject [])])"
proof -
  have none: "getManagedLabels [] ''Terraform'' = Inr None"
    by (simp add: getManagedLabels_def)
  have one: "getManagedLabels
       [tfEntry (JObject [(''f:metadata'', JObject [(''f:labels'', JObject [(''f:a'', JObject [])])])])]
       ''Terraform'' = Inr (Some [(''f:a'', JObject [])])"
    by (simp add: getManagedLabels_def tfEntry_def)
  have a: "getManagedLabels ([] @ tfEntry (JObject [(''f:data'', JObject [])]) # []) ''Terraform''
     = Inl (Panic ''interface conversion: interface {} is not map[string]interface {}'')"
    using getManagedLabels_panic_and_last_entry
      [OF none, of "tfEntry (JObject [(''f:data'', JObject [])])" "Inr (JObject [(''f:data'', JObject [])])"
         "[(''f:data'', JObject [])]" "[]" "[]" "[]"]
    by (simp add: tfEntry_def)
  have b: "getManagedLabels ([] @ tfEntry (JObject [(''f:metadata'', JString ''x'')]) # []) ''Terraform''
     = Inl (Panic ''interface conversion: interface {} is not map[string]interface {}'')"
    using getManagedLabels_panic_and_last_entry
      [OF none, of "tfEntry (JObject [(''f:metadata'', JString ''x'')])"
         "Inr (JObject [(''f:metadata'', JString ''x'')])"
         "[(''f:metadata'', JString ''x'')]" "[]" "[]" "[]"]
    by (simp add: tfEntry_def)
  have c: "getManagedLabels
       ([tfEntry (JObject [(''f:metadata'', JObject [(''f:labels'', JObject [(''f:a'', JObject [])])])])]
        @ tfEntry (JObject [(''f:metadata'', JObject [(''f:labels'', JObject [(''f:b'', JObject [])])])])
        # [\<lparr>Manager = ''kubectl'', FieldsV1 = None\<rparr>]) ''Terraform''
     = Inr (Some [(''f:b'', JObject [])])"
    using getManagedLabels_panic_and_last_entry
      [OF one, of "tfEntry (JObject [(''f:metadata'', JObject [(''f:labels'', JObject [(''f:b'', JObject [])])])])"
         "Inr (JObject [(''f:metadata'', JObject [(''f:labels'', JObject [(''f:b'', JObject [])])])])"
         "[(''f:metadata'', JObject [(''f:labels'', JObject [(''f:b'', JObject [])])])]"
         "[\<lparr>Manager = ''kubectl'', FieldsV1 = None\<rparr>]"
         "[(''f:labels'', JObject [(''f:b'', JObject [])])]" "[(''f:b'', JObject [])]"]
    by (simp add: tfEntry_def)
  have d: "getManagedLabels
       ([tfEntry (JObject [(''f:metadata'', JObject [(''f:labels'', JObject [(''f:a'', JObject [])])])])]
        @ tfEntry (JObject [(''f:metadata'', JObject [(''f:annotations'', JObject [])])]) # [])
       ''Terraform''
     = Inr (Some [(''f:a'', JObject [])])"
    using getManagedLabels_panic_and_last_entry
      [OF one, of "tfEntry (JObject [(''f:metadata'', JObject [(''f:annotations'', JObject [])])])"
         "Inr (JObject [(''f:metadata'', JObject [(''f:annotations'', JObject [])])])"
         "[(''f:metadata'', JObject [(''f:annotations'', JObject [])])]"
         "[]" "[(''f:annotations'', JObject [])]" "[]"]
    by (simp add: tfEntry_def)
  from a b c d show ?thesis by simp
qed

end
